theory Spec2Isabelle
  imports Main "HOL-Library.AList"
begin

section \<open>JavaScript values and thrown errors\<close>

text \<open>
  Values that travel through the agent as JSON (message content, tool arguments, tool
  payloads). Numbers are kept as integers: no arithmetic on payload numbers is modelled.
\<close>

datatype jsval =
    JUndefined
  | JNull
  | JBool bool
  | JNum int
  | JStr string
  | JArr "jsval list"
  | JObj "(string \<times> jsval) list"

text \<open>JavaScript truthiness, as used by \<^verbatim>\<open>if (x)\<close>, \<^verbatim>\<open>x || y\<close> and \<^verbatim>\<open>x ? a : b\<close>.\<close>

fun truthy :: "jsval \<Rightarrow> bool" where
  "truthy JUndefined = False"
| "truthy JNull = False"
| "truthy (JBool b) = b"
| "truthy (JNum n) = (n \<noteq> 0)"
| "truthy (JStr s) = (s \<noteq> [])"
| "truthy (JArr xs) = True"
| "truthy (JObj kvs) = True"

text \<open>
  A thrown value: an \<^verbatim>\<open>Error\<close> object with its name and message, or any other value,
  carried as its \<^verbatim>\<open>String()\<close> conversion.
\<close>

datatype js_error =
    ErrorObj string string
  | ThrownValue string

abbreviation Error :: "string \<Rightarrow> js_error" where
  "Error msg \<equiv> ErrorObj ''Error'' msg"

abbreviation TypeError :: "string \<Rightarrow> js_error" where
  "TypeError msg \<equiv> ErrorObj ''TypeError'' msg"

section \<open>Agent loop: data model\<close>

record tool_call =
  tc_name :: string
  tc_args :: "(string \<times> jsval) list"

text \<open>The model's reply (\<^verbatim>\<open>AIMessage\<close>): content, optional tool calls, reported token usage.\<close>

record ai_message =
  content :: jsval
  tool_calls :: "tool_call list option"
  tokenUsage :: jsval

datatype message =
    SystemMessage string
  | HumanMessage string
  | AIMessage string

record turn =
  role :: string
  turn_content :: string

text \<open>
  Modelled from the spec: the tool outcome, the tool-call record and the scratchpad
  (\<^verbatim>\<open>run-context.js\<close> and the scratchpad class are not among the sources). The scratchpad
  owns the ordered tool-call records and the ordered thinking fragments; \<^verbatim>\<open>addThinking\<close>
  appends, nothing is removed or reordered.
\<close>

datatype tool_outcome =
    Success jsval "string list"
  | Failure string

record tool_call_record =
  request :: tool_call
  outcome :: tool_outcome
  startedAt :: int
  finishedAt :: int

record scratchpad =
  thinking :: "string list"
  records :: "tool_call_record list"

definition addThinking :: "string \<Rightarrow> scratchpad \<Rightarrow> scratchpad" where
  "addThinking t sp = sp\<lparr>thinking := thinking sp @ [t]\<rparr>"

definition getToolCallRecords :: "scratchpad \<Rightarrow> tool_call_record list" where
  "getToolCallRecords sp = records sp"

record run_context =
  query :: string
  iteration :: nat
  scratchpad :: scratchpad

definition createRunContext :: "string \<Rightarrow> run_context" where
  "createRunContext q =
     \<lparr>query = q, iteration = 0, scratchpad = \<lparr>thinking = [], records = []\<rparr>\<rparr>"

text \<open>
  The configuration fields the loop reads. \<^verbatim>\<open>signal\<close> is the optional cancellation
  token; its \<^verbatim>\<open>aborted\<close> flag is read once per loop pass, so the token is the function
  from the pass number to the flag's value at that read.
\<close>

record agent_config =
  model :: "string option"
  maxIterations :: "nat option"
  signal :: "(nat \<Rightarrow> bool) option"

text \<open>
  Modelled from the spec: the events of the run (\<^verbatim>\<open>types.js\<close> is not among the
  sources). The \<^verbatim>\<open>done\<close> event carries the fields the loop writes; the dispatch of
  tool calls emits \<^verbatim>\<open>tool_start\<close> and \<^verbatim>\<open>tool_end\<close> events.
\<close>

record done_event =
  answer :: string
  toolCalls :: "tool_call_record list"
  iterations :: nat
  totalTime :: int
  done_tokenUsage :: jsval

datatype tool_event =
    ToolStart string jsval
  | ToolEnd string jsval

datatype agent_event =
    Thinking string
  | ToolEvent tool_event
  | Done done_event

text \<open>
  What one run does, in order: the events it yields, the model invocations and tool
  dispatches it makes, and the error it throws out of the generator, if any.
\<close>

datatype action =
    Yield agent_event
  | InvokeModel "message list"
  | Dispatch "tool_call list"
  | Throw js_error

text \<open>
  The collaborators of the loop. The language model is called with the pass number and
  the assembled messages, and returns a reply or throws. Modelled from the spec:
  \<^verbatim>\<open>AgentToolExecutor.executeAll\<close> (\<^verbatim>\<open>tool-executor.js\<close> is not among the sources)
  emits tool events, appends to the scratchpad, and either returns the grown scratchpad
  or raises for the whole batch. The system prompt built before the loop, the builder of
  the iteration prompt, the scratchpad's renderings, \<^verbatim>\<open>JSON.stringify\<close>, the two
  readings of the clock and the error, if any, with which the construction of the model
  client or of the tool list fails in \<^verbatim>\<open>Agent.create\<close> are taken as they come.
\<close>

record agent_env =
  systemPrompt :: string
  llm_invoke :: "nat \<Rightarrow> message list \<Rightarrow> js_error + ai_message"
  executeAll :: "ai_message \<Rightarrow> run_context \<Rightarrow> tool_event list \<times> (js_error + scratchpad)"
  buildIterationPrompt :: "string \<Rightarrow> string \<Rightarrow> string \<Rightarrow> string"
  getToolResults :: "scratchpad \<Rightarrow> string"
  formatToolUsageForPrompt :: "scratchpad \<Rightarrow> string"
  json_stringify :: "jsval \<Rightarrow> string"
  create_error :: "js_error option"
  startTime :: int
  endTime :: int

section \<open>Agent loop: \<^verbatim>\<open>Agent.run\<close>\<close>

definition max_iterations :: "agent_config \<Rightarrow> nat" where
  "max_iterations cfg = (case maxIterations cfg of None \<Rightarrow> 10 | Some m \<Rightarrow> m)"

definition signal_aborted :: "agent_config \<Rightarrow> nat \<Rightarrow> bool" where
  "signal_aborted cfg i = (case signal cfg of None \<Rightarrow> False | Some s \<Rightarrow> s i)"

definition history_message :: "turn \<Rightarrow> message" where
  "history_message t =
     (if role t = ''user'' then HumanMessage (turn_content t) else AIMessage (turn_content t))"

definition build_messages :: "agent_env \<Rightarrow> turn list option \<Rightarrow> run_context \<Rightarrow> message list" where
  "build_messages env hist ctx =
     [SystemMessage (systemPrompt env)]
     @ (case hist of None \<Rightarrow> [] | Some turns \<Rightarrow> map history_message turns)
     @ [HumanMessage (buildIterationPrompt env (query ctx)
          (getToolResults env (scratchpad ctx))
          (formatToolUsageForPrompt env (scratchpad ctx)))]"

definition content_text :: "agent_env \<Rightarrow> jsval \<Rightarrow> string" where
  "content_text env c = (case c of JStr s \<Rightarrow> s | _ \<Rightarrow> json_stringify env c)"

definition record_thinking :: "agent_env \<Rightarrow> ai_message \<Rightarrow> run_context \<Rightarrow> run_context" where
  "record_thinking env response ctx =
     (if truthy (content response)
      then ctx\<lparr>scratchpad := addThinking (content_text env (content response)) (scratchpad ctx)\<rparr>
      else ctx)"

definition has_tool_calls :: "ai_message \<Rightarrow> bool" where
  "has_tool_calls response =
     (case tool_calls response of None \<Rightarrow> False | Some tcs \<Rightarrow> length tcs > 0)"

definition requested_calls :: "ai_message \<Rightarrow> tool_call list" where
  "requested_calls response = (case tool_calls response of None \<Rightarrow> [] | Some tcs \<Rightarrow> tcs)"

definition thinking_message :: "nat \<Rightarrow> string" where
  "thinking_message i = (if i = 1 then ''Analyzing query...'' else ''Analyzing results...'')"

definition final_answer :: "agent_env \<Rightarrow> ai_message \<Rightarrow> run_context \<Rightarrow> done_event" where
  "final_answer env response ctx =
     \<lparr>answer = content_text env (content response),
      toolCalls = getToolCallRecords (scratchpad ctx),
      iterations = iteration ctx,
      totalTime = endTime env - startTime env,
      done_tokenUsage = tokenUsage response\<rparr>"

definition budget_note :: string where
  "budget_note =
     ''I've reached the maximum number of attempts and couldn't find a final answer. Here is the information I gathered so far: ''
     @ [CHR 0x0A, CHR 0x0A]"

definition budget_answer :: "agent_env \<Rightarrow> run_context \<Rightarrow> done_event" where
  "budget_answer env ctx =
     \<lparr>answer = budget_note @ getToolResults env (scratchpad ctx),
      toolCalls = getToolCallRecords (scratchpad ctx),
      iterations = iteration ctx,
      totalTime = endTime env - startTime env,
      done_tokenUsage = JUndefined\<rparr>"

text \<open>
  One pass through the body of the \<^verbatim>\<open>while\<close> loop, entered with the context as the
  loop test saw it. The pass either reaches \<^verbatim>\<open>continue\<close>, with the context for the
  next test, or leaves the generator (by \<^verbatim>\<open>return\<close> or by a throw).
\<close>

datatype pass = Continue "action list" run_context | Leave "action list"

definition cancelled :: js_error where
  "cancelled = Error ''Agent execution cancelled''"

definition loop_body :: "agent_env \<Rightarrow> agent_config \<Rightarrow> turn list option \<Rightarrow> run_context \<Rightarrow> pass" where
  "loop_body env cfg hist ctx0 =
     (let ctx = ctx0\<lparr>iteration := iteration ctx0 + 1\<rparr> in
      if signal_aborted cfg (iteration ctx) then Leave [Throw cancelled]
      else
        let messages = build_messages env hist ctx;
            before = [Yield (Thinking (thinking_message (iteration ctx))), InvokeModel messages]
        in case llm_invoke env (iteration ctx) messages of
             Inl e \<Rightarrow> Leave (before @ [Throw e])
           | Inr response \<Rightarrow>
               let ctx1 = record_thinking env response ctx in
               if has_tool_calls response then
                 (case executeAll env response ctx1 of
                    (evs, Inl e) \<Rightarrow>
                      Leave (before @ [Dispatch (requested_calls response)]
                             @ map (\<lambda>ev. Yield (ToolEvent ev)) evs @ [Throw e])
                  | (evs, Inr sp) \<Rightarrow>
                      Continue (before @ [Dispatch (requested_calls response)]
                                @ map (\<lambda>ev. Yield (ToolEvent ev)) evs)
                               (ctx1\<lparr>scratchpad := sp\<rparr>))
               else Leave (before @ [Yield (Done (final_answer env response ctx1))]))"

function run_loop :: "agent_env \<Rightarrow> agent_config \<Rightarrow> turn list option \<Rightarrow> run_context \<Rightarrow> action list" where
  "run_loop env cfg hist ctx =
     (if iteration ctx < max_iterations cfg then
        (case loop_body env cfg hist ctx of
           Leave acts \<Rightarrow> acts
         | Continue acts ctx' \<Rightarrow> acts @ run_loop env cfg hist ctx')
      else [Yield (Done (budget_answer env ctx))])"
  by pat_completeness auto
termination
proof (relation "measure (\<lambda>(env, cfg, hist, ctx). max_iterations cfg - iteration ctx)")
  show "wf (measure (\<lambda>(env, cfg, hist, ctx). max_iterations cfg - iteration ctx))"
    by simp
next
  fix env :: agent_env and cfg hist ctx acts ctx'
  assume lt: "iteration ctx < max_iterations cfg"
    and body: "loop_body env cfg hist ctx = Continue acts ctx'"
  from body have "iteration ctx' = Suc (iteration ctx)"
    by (auto simp: loop_body_def Let_def record_thinking_def
             split: if_splits sum.splits prod.splits)
  with lt show "((env, cfg, hist, ctx'), (env, cfg, hist, ctx))
      \<in> measure (\<lambda>(env, cfg, hist, ctx). max_iterations cfg - iteration ctx)"
    by simp
qed

declare run_loop.simps [simp del]

definition run :: "agent_env \<Rightarrow> agent_config \<Rightarrow> string \<Rightarrow> turn list option \<Rightarrow> action list" where
  "run env cfg q hist = run_loop env cfg hist (createRunContext q)"

section \<open>The invocation boundary: \<^verbatim>\<open>runAgent\<close>\<close>

record agent =
  agent_env_of :: agent_env
  agent_config_of :: agent_config

text \<open>
  \<^verbatim>\<open>Agent.create\<close> is declared \<^verbatim>\<open>static async\<close>: a call returns a promise of the agent
  (rejected when the construction throws), and only \<^verbatim>\<open>await\<close> gives the agent itself.
\<close>

datatype 'a reference = Settled 'a | Promise "js_error + 'a"

definition Agent_create :: "agent_env \<Rightarrow> agent_config \<Rightarrow> agent reference" where
  "Agent_create env cfg =
     Promise (case create_error env of
                Some e \<Rightarrow> Inl e
              | None \<Rightarrow> Inr \<lparr>agent_env_of = env, agent_config_of = cfg\<rparr>)"

text \<open>The method call \<^verbatim>\<open>agent.run(query, history)\<close>: a promise has no property \<^verbatim>\<open>run\<close>.\<close>

fun call_run :: "agent reference \<Rightarrow> string \<Rightarrow> turn list option \<Rightarrow> action list" where
  "call_run (Settled a) q hist = run (agent_env_of a) (agent_config_of a) q hist"
| "call_run (Promise p) q hist = [Throw (TypeError ''agent.run is not a function'')]"

text \<open>
  \<^verbatim>\<open>runAgent\<close> takes the result of \<^verbatim>\<open>Agent.create(config)\<close> without awaiting it, calls
  \<^verbatim>\<open>run\<close> on it and forwards every event of the stream.
\<close>

definition runAgent :: "agent_env \<Rightarrow> agent_config \<Rightarrow> string \<Rightarrow> turn list option \<Rightarrow> action list" where
  "runAgent env cfg q hist = (let agent = Agent_create env cfg in call_run agent q hist)"

text \<open>The terminal signals of a run: a \<^verbatim>\<open>done\<close> event or an error thrown out of it.\<close>

fun is_terminal :: "action \<Rightarrow> bool" where
  "is_terminal (Yield (Done d)) = True"
| "is_terminal (Throw e) = True"
| "is_terminal _ = False"

fun is_done :: "action \<Rightarrow> bool" where
  "is_done (Yield (Done d)) = True"
| "is_done _ = False"

fun is_invoke :: "action \<Rightarrow> bool" where
  "is_invoke (InvokeModel ms) = True"
| "is_invoke _ = False"

text \<open>
  What a pass does up to the end of the dispatch when the model's reply requests tools:
  the \<^verbatim>\<open>thinking\<close> event, the model call, the dispatch and the events it streams.
\<close>

definition pass_actions :: "agent_env \<Rightarrow> turn list option \<Rightarrow> run_context \<Rightarrow> ai_message \<Rightarrow> tool_event list \<Rightarrow> action list" where
  "pass_actions env hist ctx response evs =
     [Yield (Thinking (thinking_message (iteration ctx))),
      InvokeModel (build_messages env hist ctx),
      Dispatch (requested_calls response)]
     @ map (\<lambda>ev. Yield (ToolEvent ev)) evs"

text \<open>The context with which the loop test is evaluated next after one more pass.\<close>

definition next_context :: "agent_env \<Rightarrow> agent_config \<Rightarrow> turn list option \<Rightarrow> run_context \<Rightarrow> run_context" where
  "next_context env cfg hist ctx =
     (case loop_body env cfg hist ctx of Continue acts ctx' \<Rightarrow> ctx' | Leave acts \<Rightarrow> ctx)"



subsection \<open>Example inputs\<close>

definition example_call :: tool_call where
  "example_call = \<lparr>tc_name = ''get_stock_price'', tc_args = [(''ticker'', JStr ''AAPL'')]\<rparr>"

definition tool_reply :: ai_message where
  "tool_reply = \<lparr>content = JStr ''I will look the price up.'',
                  tool_calls = Some [example_call], tokenUsage = JUndefined\<rparr>"

definition example_record :: tool_call_record where
  "example_record = \<lparr>request = example_call, outcome = Success (JNum 190) [],
                      startedAt = 5, finishedAt = 8\<rparr>"

definition example_dispatch :: "ai_message \<Rightarrow> run_context \<Rightarrow> tool_event list \<times> (js_error + scratchpad)" where
  "example_dispatch r c =
     ([ToolStart ''get_stock_price'' (JObj [(''ticker'', JStr ''AAPL'')]),
       ToolEnd ''get_stock_price'' (JNum 190)],
      Inr ((scratchpad c)\<lparr>records := records (scratchpad c) @ [example_record]\<rparr>))"

definition example_env :: agent_env where
  "example_env =
     \<lparr>systemPrompt = ''You are Dexter.'',
      llm_invoke = (\<lambda>i ms. Inr tool_reply),
      executeAll = example_dispatch,
      buildIterationPrompt = (\<lambda>q results usage. q @ results @ usage),
      getToolResults = (\<lambda>sp. if records sp = [] then [] else ''get_stock_price: 190''),
      formatToolUsageForPrompt = (\<lambda>sp. []),
      json_stringify = (\<lambda>v. ''[]''),
      create_error = None,
      startTime = 1000,
      endTime = 1750\<rparr>"

definition config_one_pass :: agent_config where
  "config_one_pass = \<lparr>model = None, maxIterations = Some 1, signal = None\<rparr>"

definition config_cancelled :: agent_config where
  "config_cancelled = \<lparr>model = None, maxIterations = Some 1, signal = Some (\<lambda>i. True)\<rparr>"




section \<open>Language-model calls: \<^verbatim>\<open>model/llm.ts\<close> and \<^verbatim>\<open>providers.ts\<close>\<close>

subsection \<open>Provider registry\<close>

record provider_def =
  provider_id :: string
  displayName :: string
  modelPrefix :: string
  apiKeyEnvVar :: "string option"

definition PROVIDERS :: "provider_def list" where
  "PROVIDERS =
     [\<lparr>provider_id = ''openai'', displayName = ''OpenAI'', modelPrefix = '''',
       apiKeyEnvVar = Some ''OPENAI_API_KEY''\<rparr>,
      \<lparr>provider_id = ''anthropic'', displayName = ''Anthropic'', modelPrefix = ''claude-'',
       apiKeyEnvVar = Some ''ANTHROPIC_API_KEY''\<rparr>,
      \<lparr>provider_id = ''google'', displayName = ''Google'', modelPrefix = ''gemini-'',
       apiKeyEnvVar = Some ''GOOGLE_API_KEY''\<rparr>,
      \<lparr>provider_id = ''xai'', displayName = ''xAI'', modelPrefix = ''grok-'',
       apiKeyEnvVar = Some ''XAI_API_KEY''\<rparr>,
      \<lparr>provider_id = ''moonshot'', displayName = ''Moonshot'', modelPrefix = ''kimi-'',
       apiKeyEnvVar = Some ''MOONSHOT_API_KEY''\<rparr>,
      \<lparr>provider_id = ''deepseek'', displayName = ''DeepSeek'', modelPrefix = ''deepseek-'',
       apiKeyEnvVar = Some ''DEEPSEEK_API_KEY''\<rparr>,
      \<lparr>provider_id = ''openrouter'', displayName = ''OpenRouter'', modelPrefix = ''openrouter:'',
       apiKeyEnvVar = Some ''OPENROUTER_API_KEY''\<rparr>,
      \<lparr>provider_id = ''ollama'', displayName = ''Ollama'', modelPrefix = ''ollama:'',
       apiKeyEnvVar = None\<rparr>]"

definition defaultProvider :: provider_def where
  "defaultProvider = \<lparr>provider_id = ''openai'', displayName = ''OpenAI'', modelPrefix = '''',
                        apiKeyEnvVar = Some ''OPENAI_API_KEY''\<rparr>"

definition startsWith :: "string \<Rightarrow> string \<Rightarrow> bool" where
  "startsWith s p = (take (length p) s = p)"

definition endsWith :: "string \<Rightarrow> string \<Rightarrow> bool" where
  "endsWith s p = (length p \<le> length s \<and> drop (length s - length p) s = p)"

definition prefix_matches :: "string \<Rightarrow> provider_def \<Rightarrow> bool" where
  "prefix_matches modelName p =
     (if modelPrefix p = [] then False
      else
        let normalizedPrefix =
              (if endsWith (modelPrefix p) '':'' then butlast (modelPrefix p) else modelPrefix p)
        in startsWith modelName (normalizedPrefix @ '':'')
           \<or> startsWith modelName (normalizedPrefix @ ''/''))"

definition resolveProvider :: "string \<Rightarrow> provider_def" where
  "resolveProvider modelName =
     (case find (prefix_matches modelName) PROVIDERS of Some p \<Rightarrow> p | None \<Rightarrow> defaultProvider)"

subsection \<open>Constructing the chat model\<close>

definition DEFAULT_MODEL :: string where
  "DEFAULT_MODEL = ''gpt-4o-mini''"

text \<open>\<^verbatim>\<open>x || y\<close> on strings that may be undefined: the first one that is defined and not empty.\<close>

definition str_or :: "string option \<Rightarrow> string option \<Rightarrow> string option" where
  "str_or a b = (case a of Some s \<Rightarrow> (if s \<noteq> [] then Some s else b) | None \<Rightarrow> b)"

definition getApiKey ::
  "(string \<rightharpoonup> string) \<Rightarrow> string \<Rightarrow> (string \<rightharpoonup> string) option \<Rightarrow> js_error + string" where
  "getApiKey penv envVar overrides =
     (case str_or (case overrides of None \<Rightarrow> None | Some ov \<Rightarrow> ov envVar) (penv envVar) of
        Some apiKey \<Rightarrow> if apiKey \<noteq> [] then Inr apiKey
                       else Inl (Error (''[LLM] '' @ envVar
                               @ '' not found in environment variables or client overrides''))
      | None \<Rightarrow> Inl (Error (''[LLM] '' @ envVar
                    @ '' not found in environment variables or client overrides'')))"

record model_opts =
  streaming :: bool
  apiKeys :: "(string \<rightharpoonup> string) option"

text \<open>The client object a factory builds: its class and the settings passed to it.\<close>

record chat_model =
  cm_class :: string
  cm_model :: string
  cm_streaming :: bool
  cm_apiKey :: "string option"
  cm_baseURL :: "string option"

definition strip_prefix :: "string \<Rightarrow> string \<Rightarrow> string" where
  "strip_prefix p s = (if startsWith s p then drop (length p) s else s)"

definition with_key ::
  "js_error + string \<Rightarrow> (string \<Rightarrow> chat_model) \<Rightarrow> js_error + chat_model" where
  "with_key k build = (case k of Inl e \<Rightarrow> Inl e | Inr apiKey \<Rightarrow> Inr (build apiKey))"

definition openai_factory :: "(string \<rightharpoonup> string) \<Rightarrow> string \<Rightarrow> model_opts \<Rightarrow> js_error + chat_model" where
  "openai_factory penv name opts =
     with_key (getApiKey penv ''OPENAI_API_KEY'' (apiKeys opts)) (\<lambda>k.
       \<lparr>cm_class = ''ChatOpenAI'', cm_model = name, cm_streaming = streaming opts,
        cm_apiKey = Some k, cm_baseURL = None\<rparr>)"

definition anthropic_factory :: "(string \<rightharpoonup> string) \<Rightarrow> string \<Rightarrow> model_opts \<Rightarrow> js_error + chat_model" where
  "anthropic_factory penv name opts =
     with_key (getApiKey penv ''ANTHROPIC_API_KEY'' (apiKeys opts)) (\<lambda>k.
       \<lparr>cm_class = ''ChatAnthropic'', cm_model = name, cm_streaming = streaming opts,
        cm_apiKey = Some k, cm_baseURL = None\<rparr>)"

definition google_factory :: "(string \<rightharpoonup> string) \<Rightarrow> string \<Rightarrow> model_opts \<Rightarrow> js_error + chat_model" where
  "google_factory penv name opts =
     with_key (getApiKey penv ''GOOGLE_API_KEY'' (apiKeys opts)) (\<lambda>k.
       \<lparr>cm_class = ''ChatGoogleGenerativeAI'', cm_model = name, cm_streaming = streaming opts,
        cm_apiKey = Some k, cm_baseURL = None\<rparr>)"

text \<open>The OpenRouter model id drops a leading \<^verbatim>\<open>openrouter:\<close> or \<^verbatim>\<open>openrouter/\<close>.\<close>

definition openrouter_factory :: "(string \<rightharpoonup> string) \<Rightarrow> string \<Rightarrow> model_opts \<Rightarrow> js_error + chat_model" where
  "openrouter_factory penv name opts =
     (let modelId = (if startsWith name ''openrouter:'' then strip_prefix ''openrouter:'' name
                     else strip_prefix ''openrouter/'' name)
      in with_key (getApiKey penv ''OPENROUTER_API_KEY'' (apiKeys opts)) (\<lambda>k.
           \<lparr>cm_class = ''ChatOpenAI'', cm_model = modelId, cm_streaming = streaming opts,
            cm_apiKey = Some k, cm_baseURL = Some ''https://openrouter.ai/api/v1''\<rparr>))"

definition ollama_factory :: "(string \<rightharpoonup> string) \<Rightarrow> string \<Rightarrow> model_opts \<Rightarrow> js_error + chat_model" where
  "ollama_factory penv name opts =
     Inr \<lparr>cm_class = ''ChatOllama'', cm_model = strip_prefix ''ollama:'' name,
          cm_streaming = streaming opts, cm_apiKey = None,
          cm_baseURL = str_or (penv ''OLLAMA_BASE_URL'') None\<rparr>"

definition MODEL_FACTORIES ::
  "(string \<rightharpoonup> string) \<Rightarrow> string \<Rightarrow> (string \<Rightarrow> model_opts \<Rightarrow> js_error + chat_model) option" where
  "MODEL_FACTORIES penv providerId =
     (if providerId = ''openai'' then Some (openai_factory penv)
      else if providerId = ''anthropic'' then Some (anthropic_factory penv)
      else if providerId = ''google'' then Some (google_factory penv)
      else if providerId = ''openrouter'' then Some (openrouter_factory penv)
      else if providerId = ''ollama'' then Some (ollama_factory penv)
      else None)"

record llm_config =
  cfg_model :: "string option"
  cfg_provider :: "string option"
  cfg_streaming :: "bool option"
  cfg_apiKeys :: "(string \<rightharpoonup> string) option"

definition createLLM :: "(string \<rightharpoonup> string) \<Rightarrow> llm_config \<Rightarrow> js_error + chat_model" where
  "createLLM penv config =
     (let modelName = (case str_or (cfg_model config) (Some DEFAULT_MODEL) of
                         Some m \<Rightarrow> m | None \<Rightarrow> DEFAULT_MODEL);
          providerId = (case str_or (cfg_provider config) None of
                          Some p \<Rightarrow> p
                        | None \<Rightarrow> provider_id (resolveProvider modelName));
          factory = (case MODEL_FACTORIES penv providerId of
                       Some f \<Rightarrow> f
                     | None \<Rightarrow> openai_factory penv)
      in factory modelName
           \<lparr>streaming = (case cfg_streaming config of Some b \<Rightarrow> b | None \<Rightarrow> False),
            apiKeys = cfg_apiKeys config\<rparr>)"

subsection \<open>Retry with exponential backoff: \<^verbatim>\<open>withRetry\<close>\<close>

text \<open>
  What \<^verbatim>\<open>withRetry\<close> does, in order: the calls of \<^verbatim>\<open>fn\<close> (numbered from 0), the lines
  it logs (provider, attempt number, attempt count, message) and the delays it sleeps, in
  milliseconds.
\<close>

datatype retry_effect =
    Attempt nat
  | LogError string nat nat string
  | Sleep nat

definition error_message :: "js_error \<Rightarrow> string" where
  "error_message e = (case e of ErrorObj n m \<Rightarrow> m | ThrownValue s \<Rightarrow> s)"

text \<open>
  The \<^verbatim>\<open>for\<close> loop of \<^verbatim>\<open>withRetry\<close> from a given value of \<^verbatim>\<open>attempt\<close>. The \<open>k\<close>-th call of
  \<^verbatim>\<open>fn\<close> returns or throws \<open>fn k\<close>.
\<close>

function withRetry_loop ::
  "(nat \<Rightarrow> js_error + 'a) \<Rightarrow> string \<Rightarrow> nat \<Rightarrow> nat \<Rightarrow> retry_effect list \<times> (js_error + 'a)" where
  "withRetry_loop fn provider maxAttempts attempt =
     (if attempt < maxAttempts then
        (case fn attempt of
           Inr v \<Rightarrow> ([Attempt attempt], Inr v)
         | Inl e \<Rightarrow>
             if attempt = maxAttempts - 1 then
               ([Attempt attempt, LogError provider (attempt + 1) maxAttempts (error_message e)],
                Inl e)
             else
               (case withRetry_loop fn provider maxAttempts (attempt + 1) of
                  (effs, r) \<Rightarrow>
                    ([Attempt attempt,
                      LogError provider (attempt + 1) maxAttempts (error_message e),
                      Sleep (500 * 2 ^ attempt)] @ effs, r)))
      else ([], Inl (Error ''Unreachable'')))"
  by pat_completeness auto
termination
  by (relation "measure (\<lambda>(fn, provider, maxAttempts, attempt). maxAttempts - attempt)") auto

declare withRetry_loop.simps [simp del]

definition withRetry ::
  "(nat \<Rightarrow> js_error + 'a) \<Rightarrow> string \<Rightarrow> nat \<Rightarrow> retry_effect list \<times> (js_error + 'a)" where
  "withRetry fn provider maxAttempts = withRetry_loop fn provider maxAttempts 0"

subsection \<open>\<^verbatim>\<open>callLlm\<close>\<close>

record usage_metadata =
  input_tokens :: "int option"
  output_tokens :: "int option"
  total_tokens :: "int option"

record response_usage =
  prompt_tokens :: "int option"
  completion_tokens :: "int option"
  usage_total_tokens :: "int option"

text \<open>The reply of a chat model with the usage fields the providers attach to it.\<close>

record llm_message = ai_message +
  usage_metadata :: "usage_metadata option"
  response_usage :: "response_usage option"

text \<open>
  The result of the chain: a chat model's reply, or the parsed object of a structured
  output (which carries no usage fields).
\<close>

datatype chain_result =
    ResMessage llm_message
  | ResStructured jsval

record token_usage =
  inputTokens :: int
  outputTokens :: int
  totalTokens :: int

text \<open>\<^verbatim>\<open>n || 0\<close> and \<^verbatim>\<open>t || (a + b) || 0\<close> on numbers that may be undefined.\<close>

definition num_or_zero :: "int option \<Rightarrow> int" where
  "num_or_zero n = (case n of Some k \<Rightarrow> k | None \<Rightarrow> 0)"

definition total_or_sum :: "int option \<Rightarrow> int option \<Rightarrow> int option \<Rightarrow> int" where
  "total_or_sum t a b =
     (if num_or_zero t \<noteq> 0 then num_or_zero t
      else case (a, b) of (Some x, Some y) \<Rightarrow> x + y | _ \<Rightarrow> 0)"

definition extractUsage :: "chain_result \<Rightarrow> token_usage option" where
  "extractUsage result =
     (case result of
        ResStructured v \<Rightarrow> None
      | ResMessage m \<Rightarrow>
          (case usage_metadata m of
             Some um \<Rightarrow>
               Some \<lparr>inputTokens = num_or_zero (input_tokens um),
                     outputTokens = num_or_zero (output_tokens um),
                     totalTokens = total_or_sum (total_tokens um) (input_tokens um) (output_tokens um)\<rparr>
           | None \<Rightarrow>
               (case response_usage m of
                  Some u \<Rightarrow>
                    Some \<lparr>inputTokens = num_or_zero (prompt_tokens u),
                          outputTokens = num_or_zero (completion_tokens u),
                          totalTokens = total_or_sum (usage_total_tokens u)
                                          (prompt_tokens u) (completion_tokens u)\<rparr>
                | None \<Rightarrow> None)))"

record call_options =
  opt_model :: "string option"
  opt_systemPrompt :: "string option"
  opt_outputSchema :: bool
  opt_tools :: "string list option"
  opt_apiKeys :: "(string \<rightharpoonup> string) option"

datatype runnable =
    Plain chat_model
  | WithStructuredOutput chat_model
  | WithTools chat_model "string list"

definition choose_runnable :: "chat_model \<Rightarrow> call_options \<Rightarrow> runnable" where
  "choose_runnable llm opts =
     (if opt_outputSchema opts then WithStructuredOutput llm
      else case opt_tools opts of
             Some tools \<Rightarrow> if length tools > 0 then WithTools llm tools else Plain llm
           | None \<Rightarrow> Plain llm)"

text \<open>
  The surroundings of \<^verbatim>\<open>callLlm\<close>: the process environment, the default system prompt
  (\<^verbatim>\<open>prompts.js\<close> is not among the sources) and the remote model, which on the \<open>k\<close>-th
  invocation of the chain with a given runnable, system prompt and user prompt returns a
  result or throws. A chat model, alone or with tools bound, replies with a message; with a
  structured output it returns the parsed object.
\<close>

record llm_env =
  process_env :: "string \<rightharpoonup> string"
  DEFAULT_SYSTEM_PROMPT :: string
  chat_invoke :: "runnable \<Rightarrow> string \<Rightarrow> string \<Rightarrow> nat \<Rightarrow> js_error + llm_message"
  structured_invoke :: "runnable \<Rightarrow> string \<Rightarrow> string \<Rightarrow> nat \<Rightarrow> js_error + jsval"

definition chain_invoke ::
  "llm_env \<Rightarrow> runnable \<Rightarrow> string \<Rightarrow> string \<Rightarrow> nat \<Rightarrow> js_error + chain_result" where
  "chain_invoke env runnable sys prompt k =
     (case runnable of
        WithStructuredOutput llm \<Rightarrow>
          (case structured_invoke env runnable sys prompt k of
             Inl e \<Rightarrow> Inl e | Inr v \<Rightarrow> Inr (ResStructured v))
      | _ \<Rightarrow>
          (case chat_invoke env runnable sys prompt k of
             Inl e \<Rightarrow> Inl e | Inr m \<Rightarrow> Inr (ResMessage m)))"

datatype llm_response =
    ResponseContent jsval
  | ResponseMessage chain_result

record llm_result =
  response :: llm_response
  usage :: "token_usage option"

definition shape_result :: "call_options \<Rightarrow> chain_result \<Rightarrow> llm_result" where
  "shape_result opts result =
     (let usage = extractUsage result in
      case result of
        ResMessage m \<Rightarrow>
          if \<not> opt_outputSchema opts \<and> opt_tools opts = None
          then \<lparr>response = ResponseContent (content m), usage = usage\<rparr>
          else \<lparr>response = ResponseMessage result, usage = usage\<rparr>
      | ResStructured v \<Rightarrow> \<lparr>response = ResponseMessage result, usage = usage\<rparr>)"

definition callLlm ::
  "llm_env \<Rightarrow> string \<Rightarrow> call_options \<Rightarrow> retry_effect list \<times> (js_error + llm_result)" where
  "callLlm env prompt opts =
     (let modelName = (case opt_model opts of Some m \<Rightarrow> m | None \<Rightarrow> DEFAULT_MODEL);
          sys = (case opt_systemPrompt opts of
                   Some s \<Rightarrow> s | None \<Rightarrow> DEFAULT_SYSTEM_PROMPT env)
      in case createLLM (process_env env)
                \<lparr>cfg_model = Some modelName, cfg_provider = None, cfg_streaming = None,
                 cfg_apiKeys = opt_apiKeys opts\<rparr> of
           Inl e \<Rightarrow> ([], Inl e)
         | Inr llm \<Rightarrow>
             let runnable = choose_runnable llm opts;
                 provider = resolveProvider modelName
             in (case withRetry (chain_invoke env runnable sys prompt)
                        (displayName provider) 3 of
                   (effs, r) \<Rightarrow>
                     (effs, (case r of Inl e \<Rightarrow> Inl e
                                     | Inr result \<Rightarrow> Inr (shape_result opts result)))))"

section \<open>The meta-router tool: \<^verbatim>\<open>financial_search\<close>\<close>

text \<open>
  Modelled from the spec: \<^verbatim>\<open>formatToolResult\<close> (\<^verbatim>\<open>tools/types.js\<close> is not among the
  sources) packages a payload and its provenance URLs into the result a tool returns, the
  Success outcome of the spec.
\<close>

record tool_result =
  tr_data :: jsval
  tr_sourceUrls :: "jsval list"

definition formatToolResult :: "jsval \<Rightarrow> jsval list \<Rightarrow> tool_result" where
  "formatToolResult d urls = \<lparr>tr_data = d, tr_sourceUrls = urls\<rparr>"

text \<open>
  Modelled from the spec: the output of a sub-tool (of the finance tools only the Yahoo and
  Alpha Vantage ones are among the sources), as \<^verbatim>\<open>JSON.parse\<close> returns it. Sub-tools
  build their output with \<^verbatim>\<open>formatToolResult\<close>, as those two do, and a tool outcome
  carries an ordered sequence of provenance URLs: the property \<^verbatim>\<open>sourceUrls\<close>, when
  present, is an array of strings and is kept as such; every other property is read from
  the JSON value.
\<close>

record parsed_output =
  parsed_json :: jsval
  parsed_sourceUrls :: "string list option"

text \<open>
  Reading a property: \<^verbatim>\<open>null\<close> and \<^verbatim>\<open>undefined\<close> have none (a \<^verbatim>\<open>TypeError\<close>, in V8's
  wording), an object has the properties it lists, any other value yields \<^verbatim>\<open>undefined\<close>
  for the names read here.
\<close>

definition get_prop :: "jsval \<Rightarrow> string \<Rightarrow> js_error + jsval" where
  "get_prop v k =
     (case v of
        JNull \<Rightarrow> Inl (TypeError (''Cannot read properties of null (reading '' @ [CHR 0x27] @ k @ [CHR 0x27] @ '')''))
      | JUndefined \<Rightarrow> Inl (TypeError (''Cannot read properties of undefined (reading '' @ [CHR 0x27] @ k @ [CHR 0x27] @ '')''))
      | JObj kvs \<Rightarrow> Inr (case map_of kvs k of Some x \<Rightarrow> x | None \<Rightarrow> JUndefined)
      | _ \<Rightarrow> Inr JUndefined)"

definition js_or :: "jsval \<Rightarrow> jsval \<Rightarrow> jsval" where
  "js_or a b = (if truthy a then a else b)"

text \<open>
  A finance tool, as the router sees it inside its \<^verbatim>\<open>try\<close> block: given the position of
  the call in the batch and the arguments, the invocation followed by the parsing of its
  output yields the parsed output, or one of the two throws.
\<close>

type_synonym sub_tool = "nat \<Rightarrow> (string \<times> jsval) list \<Rightarrow> js_error + parsed_output"

text \<open>
  The surroundings of the router: the language-model side, the names of the finance tools
  bound to the routing call, the map from names to tools, the routing prompt (it embeds the
  current date) and \<^verbatim>\<open>String(v)\<close> for a value that is not a string.
\<close>

record router_env =
  llm :: llm_env
  FINANCE_TOOLS :: "string list"
  FINANCE_TOOL_MAP :: "string \<rightharpoonup> sub_tool"
  buildRouterPrompt :: string
  js_toString :: "jsval \<Rightarrow> string"

text \<open>One entry of \<^verbatim>\<open>results\<close>; \<^verbatim>\<open>error: null\<close> is \<open>None\<close>.\<close>

record sub_result =
  sr_tool :: string
  sr_args :: "(string \<times> jsval) list"
  sr_data :: jsval
  sr_sourceUrls :: "string list"
  sr_error :: "string option"

definition not_found :: "string \<Rightarrow> js_error" where
  "not_found name = Error (''Tool '' @ [CHR 0x27] @ name @ [CHR 0x27] @ '' not found'')"

text \<open>The body of the \<^verbatim>\<open>try\<close> block for the call at position \<open>i\<close>.\<close>

definition try_call :: "router_env \<Rightarrow> nat \<Rightarrow> tool_call \<Rightarrow> js_error + sub_result" where
  "try_call env i tc =
     (case FINANCE_TOOL_MAP env (tc_name tc) of
        None \<Rightarrow> Inl (not_found (tc_name tc))
      | Some tool \<Rightarrow>
          (case tool i (tc_args tc) of
             Inl e \<Rightarrow> Inl e
           | Inr parsed \<Rightarrow>
               (case get_prop (parsed_json parsed) ''data'' of
                  Inl e \<Rightarrow> Inl e
                | Inr d \<Rightarrow>
                    Inr \<lparr>sr_tool = tc_name tc, sr_args = tc_args tc,
                         sr_data = js_or d (parsed_json parsed),
                         sr_sourceUrls = (case parsed_sourceUrls parsed of
                                            Some urls \<Rightarrow> urls | None \<Rightarrow> []),
                         sr_error = None\<rparr>)))"

text \<open>The wrapped call: what the \<^verbatim>\<open>catch\<close> block returns when the body throws.\<close>

definition call_sub_tool :: "router_env \<Rightarrow> nat \<Rightarrow> tool_call \<Rightarrow> sub_result" where
  "call_sub_tool env i tc =
     (case try_call env i tc of
        Inr r \<Rightarrow> r
      | Inl e \<Rightarrow> \<lparr>sr_tool = tc_name tc, sr_args = tc_args tc, sr_data = JNull,
                   sr_sourceUrls = [], sr_error = Some (error_message e)\<rparr>)"

text \<open>\<^verbatim>\<open>Promise.all\<close> over the wrapped calls: one entry per call, in the order of the calls.\<close>

definition call_all :: "router_env \<Rightarrow> tool_call list \<Rightarrow> sub_result list" where
  "call_all env tcs = map (\<lambda>(i, tc). call_sub_tool env i tc) (enumerate 0 tcs)"

text \<open>\<^verbatim>\<open>if (result.error)\<close>: the entry has an error message and it is not empty.\<close>

definition error_set :: "sub_result \<Rightarrow> bool" where
  "error_set r = (case sr_error r of None \<Rightarrow> False | Some msg \<Rightarrow> msg \<noteq> [])"

definition error_text :: "sub_result \<Rightarrow> string" where
  "error_text r = (case sr_error r of None \<Rightarrow> [] | Some msg \<Rightarrow> msg)"

definition ticker_of :: "sub_result \<Rightarrow> jsval" where
  "ticker_of r = (case map_of (sr_args r) ''ticker'' of Some t \<Rightarrow> t | None \<Rightarrow> JUndefined)"

definition template_text :: "router_env \<Rightarrow> jsval \<Rightarrow> string" where
  "template_text env v = (case v of JStr s \<Rightarrow> s | _ \<Rightarrow> js_toString env v)"

text \<open>The key an entry is stored under, and the value stored.\<close>

definition result_key :: "router_env \<Rightarrow> sub_result \<Rightarrow> string" where
  "result_key env r =
     (if error_set r then sr_tool r @ ''_error''
      else if truthy (ticker_of r) then sr_tool r @ ''_'' @ template_text env (ticker_of r)
      else sr_tool r)"

definition result_value :: "sub_result \<Rightarrow> jsval" where
  "result_value r = (if error_set r then JStr (error_text r) else sr_data r)"

text \<open>
  One turn of the combining loop: \<^verbatim>\<open>combinedData[key] = value\<close> replaces the value of a key
  already there and appends a new key otherwise; the URLs of a successful entry are pushed.
\<close>

definition combine_step ::
  "router_env \<Rightarrow> (string \<times> jsval) list \<times> string list \<Rightarrow> sub_result \<Rightarrow>
     (string \<times> jsval) list \<times> string list" where
  "combine_step env acc r =
     (case acc of (combinedData, allUrls) \<Rightarrow>
        if error_set r
        then (AList.update (sr_tool r @ ''_error'') (JStr (error_text r)) combinedData,
              allUrls)
        else
          let ticker = ticker_of r;
              key = (if truthy ticker then sr_tool r @ ''_'' @ template_text env ticker
                     else sr_tool r)
          in (AList.update key (sr_data r) combinedData, allUrls @ sr_sourceUrls r))"

definition combine :: "router_env \<Rightarrow> sub_result list \<Rightarrow> (string \<times> jsval) list \<times> string list" where
  "combine env results = foldl (combine_step env) ([], []) results"

text \<open>\<^verbatim>\<open>Array.from(new Set(xs))\<close>: the elements in the order of their first occurrence.\<close>

definition set_add :: "'a list \<Rightarrow> 'a \<Rightarrow> 'a list" where
  "set_add seen x = (if x \<in> set seen then seen else seen @ [x])"

definition array_from_set :: "'a list \<Rightarrow> 'a list" where
  "array_from_set xs = foldl set_add [] xs"

definition no_tools_selected :: "jsval \<Rightarrow> tool_result" where
  "no_tools_selected c =
     formatToolResult
       (JObj [(''error'', JStr ''No tools selected for query''),
              (''message'', (case c of JStr s \<Rightarrow> JStr s
                                     | _ \<Rightarrow> JStr ''Router did not select tools''))])
       []"

definition router_options :: "router_env \<Rightarrow> string \<Rightarrow> (string \<rightharpoonup> string) option \<Rightarrow> call_options" where
  "router_options env modelName keys =
     \<lparr>opt_model = Some modelName, opt_systemPrompt = Some (buildRouterPrompt env),
      opt_outputSchema = False, opt_tools = Some (FINANCE_TOOLS env), opt_apiKeys = keys\<rparr>"

text \<open>
  The function of the tool that \<^verbatim>\<open>createFinancialSearch(model, apiKeys)\<close> builds, applied to
  a query. The progress callback only reports and is left out. With tools passed to
  \<^verbatim>\<open>callLlm\<close> the response is the model's message.
\<close>

definition financial_search ::
  "router_env \<Rightarrow> string \<Rightarrow> (string \<rightharpoonup> string) option \<Rightarrow> string \<Rightarrow> js_error + tool_result" where
  "financial_search env modelName keys q =
     (case snd (callLlm (llm env) q (router_options env modelName keys)) of
        Inl e \<Rightarrow> Inl e
      | Inr res \<Rightarrow>
          (case response res of
             ResponseMessage (ResMessage aiMessage) \<Rightarrow>
               (case tool_calls aiMessage of
                  None \<Rightarrow> Inr (no_tools_selected (content aiMessage))
                | Some tcs \<Rightarrow>
                    if length tcs = 0 then Inr (no_tools_selected (content aiMessage))
                    else
                      let results = call_all env tcs;
                          (combinedData, allUrls) = combine env results
                      in Inr (formatToolResult (JObj combinedData)
                             (map JStr (array_from_set allUrls))))
           | _ \<Rightarrow> Inr (no_tools_selected JUndefined)))"

section \<open>The Yahoo Finance and Alpha Vantage tools\<close>

text \<open>
  The surroundings of the tools: the process environment, the remote services (each call
  returns the JSON it received or throws), the number parsers and \<^verbatim>\<open>String(v)\<close> for a
  value that is not a string, and the clock's ISO time stamp.
\<close>

record tools_env =
  tools_process_env :: "string \<rightharpoonup> string"
  fetch_json :: "string \<Rightarrow> js_error + jsval"
  yahoo_quote :: "string \<Rightarrow> js_error + jsval"
  yahoo_quoteSummary :: "string \<Rightarrow> js_error + jsval"
  yahoo_search :: "string \<Rightarrow> js_error + jsval"
  parseFloat :: "jsval \<Rightarrow> jsval"
  parseInt :: "jsval \<Rightarrow> jsval"
  tools_toString :: "jsval \<Rightarrow> string"
  toISOString :: string

text \<open>\<^verbatim>\<open>try { body } catch (error) { handler }\<close> and sequencing of steps that may throw.\<close>

definition try_catch :: "(js_error + 'a) \<Rightarrow> (js_error \<Rightarrow> js_error + 'a) \<Rightarrow> js_error + 'a" where
  "try_catch body handler = (case body of Inl e \<Rightarrow> handler e | Inr v \<Rightarrow> Inr v)"

definition then_do :: "(js_error + 'a) \<Rightarrow> ('a \<Rightarrow> js_error + 'b) \<Rightarrow> js_error + 'b" where
  "then_do step rest = (case step of Inl e \<Rightarrow> Inl e | Inr v \<Rightarrow> rest v)"

text \<open>\<^verbatim>\<open>String(error)\<close>, as a template literal renders a caught value.\<close>

definition error_string :: "js_error \<Rightarrow> string" where
  "error_string e =
     (case e of
        ErrorObj n m \<Rightarrow> (if m = [] then n else if n = [] then m else n @ '': '' @ m)
      | ThrownValue s \<Rightarrow> s)"

definition text_of :: "tools_env \<Rightarrow> jsval \<Rightarrow> string" where
  "text_of env v = (case v of JStr s \<Rightarrow> s | _ \<Rightarrow> tools_toString env v)"

text \<open>A property of a value that is neither \<^verbatim>\<open>null\<close> nor \<^verbatim>\<open>undefined\<close>.\<close>

definition prop_of :: "jsval \<Rightarrow> string \<Rightarrow> jsval" where
  "prop_of v k = (case v of JObj kvs \<Rightarrow> (case map_of kvs k of Some x \<Rightarrow> x | None \<Rightarrow> JUndefined)
                        | _ \<Rightarrow> JUndefined)"

text \<open>\<^verbatim>\<open>Object.keys(v).length\<close> for a truthy value.\<close>

definition key_count :: "jsval \<Rightarrow> nat" where
  "key_count v = (case v of JObj kvs \<Rightarrow> length kvs | JArr xs \<Rightarrow> length xs
                          | JStr s \<Rightarrow> length s | _ \<Rightarrow> 0)"

definition failure_payload :: "string \<Rightarrow> string \<Rightarrow> js_error \<Rightarrow> tool_result" where
  "failure_payload what ticker e =
     formatToolResult
       (JObj [(''error'', JStr (''Failed to fetch '' @ what @ '' for '' @ ticker @ '': ''
                              @ error_string e))]) []"

subsection \<open>\<^verbatim>\<open>tools/finance/alpha_vantage.ts\<close>\<close>

definition av_url :: "string \<Rightarrow> string \<Rightarrow> string \<Rightarrow> string" where
  "av_url fn ticker apiKey =
     ''https://www.alphavantage.co/query?function='' @ fn @ ''&symbol='' @ ticker
     @ ''&apikey='' @ apiKey"

definition av_price_body :: "tools_env \<Rightarrow> string \<Rightarrow> js_error + tool_result" where
  "av_price_body env ticker =
     (case str_or (tools_process_env env ''ALPHA_VANTAGE_API_KEY'') None of
        None \<Rightarrow> Inl (Error ''ALPHA_VANTAGE_API_KEY is not set in .env'')
      | Some apiKey \<Rightarrow>
          then_do (fetch_json env (av_url ''GLOBAL_QUOTE'' ticker apiKey)) (\<lambda>rawData.
          then_do (get_prop rawData ''Error Message'') (\<lambda>msg.
            if truthy msg then Inl (Error (text_of env msg))
            else
          then_do (get_prop rawData ''Note'') (\<lambda>note.
            if truthy note then Inl (Error (''Alpha Vantage API Limit: '' @ text_of env note))
            else
          then_do (get_prop rawData ''Global Quote'') (\<lambda>quote.
            if \<not> truthy quote \<or> key_count quote = 0
            then Inr (formatToolResult
                   (JObj [(''error'', JStr (''No data found for '' @ ticker @ ''. check validity.''))])
                   [])
            else Inr (formatToolResult
                   (JObj [(''symbol'', prop_of quote ''01. symbol''),
                          (''price'', parseFloat env (prop_of quote ''05. price'')),
                          (''open'', parseFloat env (prop_of quote ''02. open'')),
                          (''high'', parseFloat env (prop_of quote ''03. high'')),
                          (''low'', parseFloat env (prop_of quote ''04. low'')),
                          (''volume'', parseInt env (prop_of quote ''06. volume'')),
                          (''latestTradingDay'', prop_of quote ''07. latest trading day''),
                          (''previousClose'', parseFloat env (prop_of quote ''08. previous close'')),
                          (''change'', parseFloat env (prop_of quote ''09. change'')),
                          (''changePercent'', prop_of quote ''10. change percent'')])
                   [JStr ''https://www.alphavantage.co'']))))))"

definition getAlphaVantagePriceSnapshot :: "tools_env \<Rightarrow> string \<Rightarrow> js_error + tool_result" where
  "getAlphaVantagePriceSnapshot env ticker =
     try_catch (av_price_body env ticker) (\<lambda>e. Inr (failure_payload ''price'' ticker e))"

text \<open>
  The overview tool does not test the key: an unset variable is rendered as
  \<^verbatim>\<open>undefined\<close> in the URL.
\<close>

definition av_overview_body :: "tools_env \<Rightarrow> string \<Rightarrow> js_error + tool_result" where
  "av_overview_body env ticker =
     (let apiKey = (case tools_process_env env ''ALPHA_VANTAGE_API_KEY'' of
                      Some k \<Rightarrow> k | None \<Rightarrow> ''undefined'')
      in then_do (fetch_json env (av_url ''OVERVIEW'' ticker apiKey)) (\<lambda>d.
         then_do (get_prop d ''Error Message'') (\<lambda>msg.
           if truthy msg then Inl (Error (text_of env msg))
           else
         then_do (get_prop d ''Note'') (\<lambda>note.
           if truthy note then Inl (Error (''Alpha Vantage API Limit: '' @ text_of env note))
           else if key_count d = 0
           then Inr (formatToolResult
                  (JObj [(''error'', JStr (''No overview data found for '' @ ticker @ ''.''))]) [])
           else Inr (formatToolResult d [JStr ''https://www.alphavantage.co''])))))"

definition getAlphaVantageOverview :: "tools_env \<Rightarrow> string \<Rightarrow> js_error + tool_result" where
  "getAlphaVantageOverview env ticker =
     try_catch (av_overview_body env ticker) (\<lambda>e. Inr (failure_payload ''overview'' ticker e))"

subsection \<open>\<^verbatim>\<open>tools/finance/yahoo.ts\<close>\<close>

definition yahoo_price_body :: "tools_env \<Rightarrow> string \<Rightarrow> js_error + tool_result" where
  "yahoo_price_body env ticker =
     then_do (yahoo_quote env ticker) (\<lambda>quote.
     then_do (get_prop quote ''symbol'') (\<lambda>symbol.
       Inr (formatToolResult
         (JObj [(''symbol'', symbol),
                (''price'', prop_of quote ''regularMarketPrice''),
                (''currency'', prop_of quote ''currency''),
                (''exchange'', prop_of quote ''exchange''),
                (''open'', prop_of quote ''regularMarketOpen''),
                (''high'', prop_of quote ''regularMarketDayHigh''),
                (''low'', prop_of quote ''regularMarketDayLow''),
                (''previousClose'', prop_of quote ''regularMarketPreviousClose''),
                (''volume'', prop_of quote ''regularMarketVolume''),
                (''marketCap'', prop_of quote ''marketCap''),
                (''timestamp'', JStr (toISOString env))])
         [JStr (''https://finance.yahoo.com/quote/'' @ ticker)])))"

definition getYahooPriceSnapshot :: "tools_env \<Rightarrow> string \<Rightarrow> js_error + tool_result" where
  "getYahooPriceSnapshot env ticker =
     try_catch (yahoo_price_body env ticker) (\<lambda>e. Inr (failure_payload ''price'' ticker e))"

definition yahoo_fundamentals_body :: "tools_env \<Rightarrow> string \<Rightarrow> js_error + tool_result" where
  "yahoo_fundamentals_body env ticker =
     then_do (yahoo_quoteSummary env ticker) (\<lambda>result.
     then_do (get_prop result ''defaultKeyStatistics'') (\<lambda>valuation.
       Inr (formatToolResult
         (JObj [(''valuation'', valuation),
                (''financials'', prop_of result ''financialData''),
                (''balanceSheet'', prop_of result ''balanceSheetHistory''),
                (''incomeStatement'', prop_of result ''incomeStatementHistory''),
                (''cashFlow'', prop_of result ''cashflowStatementHistory'')])
         [JStr (''https://finance.yahoo.com/quote/'' @ ticker @ ''/financials'')])))"

definition getYahooFundamentals :: "tools_env \<Rightarrow> string \<Rightarrow> js_error + tool_result" where
  "getYahooFundamentals env ticker =
     try_catch (yahoo_fundamentals_body env ticker)
       (\<lambda>e. Inr (failure_payload ''fundamentals'' ticker e))"

text \<open>One news item; reading a property of a \<^verbatim>\<open>null\<close> item throws.\<close>

definition news_item :: "jsval \<Rightarrow> js_error + jsval" where
  "news_item item =
     then_do (get_prop item ''title'') (\<lambda>title.
       Inr (JObj [(''title'', title),
                  (''link'', prop_of item ''link''),
                  (''publisher'', prop_of item ''publisher''),
                  (''providerPublishTime'', prop_of item ''providerPublishTime''),
                  (''type'', prop_of item ''type'')]))"

text \<open>\<^verbatim>\<open>xs.map(f)\<close> for an \<open>f\<close> that may throw: the first throw ends the mapping.\<close>

fun map_throwing :: "('a \<Rightarrow> js_error + 'b) \<Rightarrow> 'a list \<Rightarrow> js_error + 'b list" where
  "map_throwing f [] = Inr []"
| "map_throwing f (x # xs) =
     (case f x of
        Inl e \<Rightarrow> Inl e
      | Inr y \<Rightarrow> (case map_throwing f xs of Inl e \<Rightarrow> Inl e | Inr ys \<Rightarrow> Inr (y # ys)))"

definition yahoo_news_body :: "tools_env \<Rightarrow> string \<Rightarrow> js_error + tool_result" where
  "yahoo_news_body env ticker =
     then_do (yahoo_search env ticker) (\<lambda>news.
     then_do (get_prop news ''news'') (\<lambda>items.
       case items of
         JArr xs \<Rightarrow>
           then_do (map_throwing news_item xs) (\<lambda>newsItems.
             Inr (formatToolResult (JObj [(''news'', JArr newsItems)])
                    (filter truthy (map (\<lambda>n. prop_of n ''link'') newsItems))))
       | JUndefined \<Rightarrow>
           Inl (TypeError (''Cannot read properties of undefined (reading '' @ [CHR 0x27]
                            @ ''map'' @ [CHR 0x27] @ '')''))
       | JNull \<Rightarrow>
           Inl (TypeError (''Cannot read properties of null (reading '' @ [CHR 0x27]
                            @ ''map'' @ [CHR 0x27] @ '')''))
       | _ \<Rightarrow> Inl (TypeError ''news.news.map is not a function'')))"

definition getYahooNews :: "tools_env \<Rightarrow> string \<Rightarrow> js_error + tool_result" where
  "getYahooNews env ticker =
     try_catch (yahoo_news_body env ticker) (\<lambda>e. Inr (failure_payload ''news'' ticker e))"

section \<open>Example inputs for the router and the tools\<close>

definition example_llm :: "llm_message \<Rightarrow> llm_env" where
  "example_llm reply =
     \<lparr>process_env = [''OPENAI_API_KEY'' \<mapsto> ''sk-test''],
      DEFAULT_SYSTEM_PROMPT = ''You are Dexter.'',
      chat_invoke = (\<lambda>r s p k. Inr reply),
      structured_invoke = (\<lambda>r s p k. Inr JNull)\<rparr>"

text \<open>
  Three finance tools: a price tool that returns a wrapped result with one URL, a
  statements tool that echoes the requested period, and a news tool whose invocation
  throws an error with an empty message.
\<close>

definition price_tool :: sub_tool where
  "price_tool i args =
     Inr \<lparr>parsed_json = JObj [(''data'', JObj [(''price'', JNum 190)]),
                               (''sourceUrls'', JArr [JStr ''https://prices.example/AAPL''])],
          parsed_sourceUrls = Some [''https://prices.example/AAPL'']\<rparr>"

definition statements_tool :: sub_tool where
  "statements_tool i args =
     Inr \<lparr>parsed_json = JObj [(''data'', JObj [(''period'',
                                   (case map_of args ''period'' of Some p \<Rightarrow> p | None \<Rightarrow> JNull))]),
                               (''sourceUrls'', JArr [JStr ''https://prices.example/AAPL''])],
          parsed_sourceUrls = Some [''https://prices.example/AAPL'']\<rparr>"

definition news_tool :: sub_tool where
  "news_tool i args = Inl (Error [])"

definition example_tools :: "string \<rightharpoonup> sub_tool" where
  "example_tools =
     [''get_stock_price'' \<mapsto> price_tool,
      ''get_income_statements'' \<mapsto> statements_tool,
      ''get_company_news'' \<mapsto> news_tool]"

definition example_router :: "llm_message \<Rightarrow> router_env" where
  "example_router reply =
     \<lparr>llm = example_llm reply,
      FINANCE_TOOLS = [''get_stock_price'', ''get_income_statements'', ''get_company_news''],
      FINANCE_TOOL_MAP = example_tools,
      buildRouterPrompt = ''You are a financial data routing assistant.'',
      js_toString = (\<lambda>v. ''[object Object]'')\<rparr>"

definition reply_with :: "jsval \<Rightarrow> tool_call list option \<Rightarrow> llm_message" where
  "reply_with c tcs =
     \<lparr>content = c, tool_calls = tcs, tokenUsage = JUndefined,
      usage_metadata = None, response_usage = None\<rparr>"

definition call_price :: tool_call where
  "call_price = \<lparr>tc_name = ''get_stock_price'', tc_args = [(''ticker'', JStr ''AAPL'')]\<rparr>"

definition call_unknown :: tool_call where
  "call_unknown = \<lparr>tc_name = ''get_dividends'', tc_args = [(''ticker'', JStr ''AAPL'')]\<rparr>"

definition call_annual :: tool_call where
  "call_annual = \<lparr>tc_name = ''get_income_statements'',
                   tc_args = [(''ticker'', JStr ''AAPL''), (''period'', JStr ''annual'')]\<rparr>"

definition call_quarterly :: tool_call where
  "call_quarterly = \<lparr>tc_name = ''get_income_statements'',
                      tc_args = [(''ticker'', JStr ''AAPL''), (''period'', JStr ''quarterly'')]\<rparr>"

definition call_news :: tool_call where
  "call_news = \<lparr>tc_name = ''get_company_news'', tc_args = [(''ticker'', JStr ''AAPL'')]\<rparr>"

text \<open>The router's replies: no tool selected; a price call and an unknown tool; the same
  statements tool twice for one ticker; a news call.\<close>

definition reply_none :: llm_message where
  "reply_none = reply_with (JStr ''I cannot route this question.'') None"

text \<open>A reply that selects no tool and whose content is a list of content blocks, as
  the chat models return it when the message is not a plain string.\<close>

definition reply_blocks :: llm_message where
  "reply_blocks =
     reply_with (JArr [JObj [(''type'', JStr ''text''),
                             (''text'', JStr ''I cannot route this question.'')]]) None"

definition reply_mixed :: llm_message where
  "reply_mixed = reply_with (JStr []) (Some [call_price, call_unknown])"


definition reply_news :: llm_message where
  "reply_news = reply_with (JStr []) (Some [call_news])"

definition example_tools_env :: tools_env where
  "example_tools_env =
     \<lparr>tools_process_env = Map.empty,
      fetch_json = (\<lambda>url. Inl (TypeError ''fetch failed'')),
      yahoo_quote = (\<lambda>t. Inr JUndefined),
      yahoo_quoteSummary = (\<lambda>t. Inl (Error ''Quote not found for ticker symbol: NOPE'')),
      yahoo_search = (\<lambda>t. Inr (JObj [(''news'', JArr [JObj [(''title'', JStr ''Results''),
                                                           (''link'', JStr ''https://news.example/1'')]])])),
      parseFloat = (\<lambda>v. v),
      parseInt = (\<lambda>v. v),
      tools_toString = (\<lambda>v. ''[object Object]''),
      toISOString = ''2026-01-05T10:00:00.000Z''\<rparr>"

text \<open>A model endpoint that is rate limited twice and then answers.\<close>

definition flaky_llm :: llm_env where
  "flaky_llm =
     \<lparr>process_env = [''OPENAI_API_KEY'' \<mapsto> ''sk-test''],
      DEFAULT_SYSTEM_PROMPT = ''You are Dexter.'',
      chat_invoke = (\<lambda>r s p k. if k < 2 then Inl (Error ''rate limited'') else Inr reply_none),
      structured_invoke = (\<lambda>r s p k. Inr JNull)\<rparr>"

definition plain_options :: call_options where
  "plain_options =
     \<lparr>opt_model = Some ''gpt-4o'', opt_systemPrompt = None, opt_outputSchema = False,
      opt_tools = None, opt_apiKeys = None\<rparr>"

definition openai_client :: chat_model where
  "openai_client =
     \<lparr>cm_class = ''ChatOpenAI'', cm_model = ''gpt-4o'', cm_streaming = False,
      cm_apiKey = Some ''sk-test'', cm_baseURL = None\<rparr>"

definition reply_three :: llm_message where
  "reply_three = reply_with (JStr []) (Some [call_annual, call_quarterly, call_unknown])"

definition annual_entry :: sub_result where
  "annual_entry =
     \<lparr>sr_tool = ''get_income_statements'',
      sr_args = [(''ticker'', JStr ''AAPL''), (''period'', JStr ''annual'')],
      sr_data = JObj [(''period'', JStr ''annual'')],
      sr_sourceUrls = [''https://prices.example/AAPL''], sr_error = None\<rparr>"

definition quarterly_entry :: sub_result where
  "quarterly_entry =
     \<lparr>sr_tool = ''get_income_statements'',
      sr_args = [(''ticker'', JStr ''AAPL''), (''period'', JStr ''quarterly'')],
      sr_data = JObj [(''period'', JStr ''quarterly'')],
      sr_sourceUrls = [''https://prices.example/AAPL''], sr_error = None\<rparr>"

definition price_entry :: sub_result where
  "price_entry =
     \<lparr>sr_tool = ''get_stock_price'', sr_args = [(''ticker'', JStr ''AAPL'')],
      sr_data = JObj [(''price'', JNum 190)],
      sr_sourceUrls = [''https://prices.example/AAPL''], sr_error = None\<rparr>"

definition unknown_entry :: sub_result where
  "unknown_entry =
     \<lparr>sr_tool = ''get_dividends'', sr_args = [(''ticker'', JStr ''AAPL'')],
      sr_data = JNull, sr_sourceUrls = [],
      sr_error = Some (error_message (not_found ''get_dividends''))\<rparr>"




section \<open>Properties of the agent loop\<close>

subsection \<open>Passes and the loop\<close>


lemma loop_body_Continue_quiet:
  "loop_body env cfg hist ctx = Continue acts ctx' \<Longrightarrow> filter is_terminal acts = []"
  by (auto simp: loop_body_def Let_def split: if_splits sum.splits prod.splits)

lemma loop_body_Continue_invoke:
  "loop_body env cfg hist ctx = Continue acts ctx' \<Longrightarrow>
     length (filter is_invoke acts) = 1 \<and> iteration ctx' = Suc (iteration ctx)"
  by (auto simp: loop_body_def Let_def record_thinking_def comp_def
           split: if_splits sum.splits prod.splits)

lemma loop_body_Leave_terminal:
  "loop_body env cfg hist ctx = Leave acts \<Longrightarrow>
     \<exists>pre t. acts = pre @ [t] \<and> is_terminal t \<and> filter is_terminal pre = []"
  by (auto simp: loop_body_def Let_def split: if_splits sum.splits prod.splits)

lemma run_loop_Continue:
  "iteration ctx < max_iterations cfg \<Longrightarrow> loop_body env cfg hist ctx = Continue acts ctx' \<Longrightarrow>
     run_loop env cfg hist ctx = acts @ run_loop env cfg hist ctx'"
  by (simp add: run_loop.simps [of env cfg hist ctx])

lemma run_loop_Leave:
  "iteration ctx < max_iterations cfg \<Longrightarrow> loop_body env cfg hist ctx = Leave acts \<Longrightarrow>
     run_loop env cfg hist ctx = acts"
  by (simp add: run_loop.simps [of env cfg hist ctx])

lemma run_loop_exit:
  "\<not> iteration ctx < max_iterations cfg \<Longrightarrow>
     run_loop env cfg hist ctx = [Yield (Done (budget_answer env ctx))]"
  by (simp add: run_loop.simps [of env cfg hist ctx])

lemma run_loop_terminal:
  "\<exists>pre t. run_loop env cfg hist ctx = pre @ [t] \<and> is_terminal t \<and> filter is_terminal pre = []"
proof (induction env cfg hist ctx rule: run_loop.induct)
  case (1 env cfg hist ctx)
  show ?case
  proof (cases "iteration ctx < max_iterations cfg")
    case False
    then show ?thesis by (simp add: run_loop_exit)
  next
    case True
    show ?thesis
    proof (cases "loop_body env cfg hist ctx")
      case (Leave acts)
      with True loop_body_Leave_terminal [OF Leave] show ?thesis
        by (simp add: run_loop_Leave)
    next
      case (Continue acts ctx')
      from "1.IH" [OF True Continue] obtain pre t where
        r: "run_loop env cfg hist ctx' = pre @ [t]" "is_terminal t" "filter is_terminal pre = []"
        by blast
      have "run_loop env cfg hist ctx = (acts @ pre) @ [t]"
        using True Continue r(1) by (simp add: run_loop_Continue)
      moreover have "filter is_terminal (acts @ pre) = []"
        using loop_body_Continue_quiet [OF Continue] r(3) by simp
      ultimately show ?thesis using r(2) by blast
    qed
  qed
qed

lemma one_terminal_last:
  assumes "tr = pre @ [t]" "is_terminal t" "filter is_terminal pre = []"
  shows "tr \<noteq> [] \<and> length (filter is_terminal tr) = 1 \<and> is_terminal (last tr)"
  using assms by simp


lemma loop_body_cancelled:
  "signal_aborted cfg (Suc (iteration ctx)) \<Longrightarrow> loop_body env cfg hist ctx = Leave [Throw cancelled]"
  by (simp add: loop_body_def)

lemma pass_actions_no_done: "filter is_done (pass_actions env hist ctx reply evs) = []"
  by (simp add: pass_actions_def filter_empty_conv image_iff)

lemma loop_body_tool_calls:
  assumes "\<not> signal_aborted cfg (Suc (iteration ctx))"
    and "llm_invoke env (Suc (iteration ctx))
           (build_messages env hist (ctx\<lparr>iteration := Suc (iteration ctx)\<rparr>)) = Inr reply"
    and "has_tool_calls reply"
    and "executeAll env reply (record_thinking env reply (ctx\<lparr>iteration := Suc (iteration ctx)\<rparr>)) = (evs, res)"
  shows "loop_body env cfg hist ctx =
     (case res of
        Inr sp \<Rightarrow> Continue (pass_actions env hist (ctx\<lparr>iteration := Suc (iteration ctx)\<rparr>) reply evs)
                    ((record_thinking env reply (ctx\<lparr>iteration := Suc (iteration ctx)\<rparr>))\<lparr>scratchpad := sp\<rparr>)
      | Inl e \<Rightarrow> Leave (pass_actions env hist (ctx\<lparr>iteration := Suc (iteration ctx)\<rparr>) reply evs @ [Throw e]))"
  using assms by (simp add: loop_body_def Let_def pass_actions_def split: sum.splits)





lemma budget_loop:
  assumes nocancel: "\<forall>i. \<not> signal_aborted cfg i"
    and tools: "\<forall>i ms. \<exists>r. llm_invoke env i ms = Inr r \<and> has_tool_calls r"
    and disp: "\<forall>r c. \<exists>evs sp. executeAll env r c = (evs, Inr sp)"
  shows "\<exists>pre. run_loop env cfg hist ctx =
           pre @ [Yield (Done (budget_answer env
                    ((next_context env cfg hist ^^ (max_iterations cfg - iteration ctx)) ctx)))]
         \<and> filter is_terminal pre = []
         \<and> length (filter is_invoke pre) = max_iterations cfg - iteration ctx"
  using assms
proof (induction env cfg hist ctx rule: run_loop.induct)
  case (1 env cfg hist ctx)
  let ?M = "max_iterations cfg"
  show ?case
  proof (cases "iteration ctx < ?M")
    case False
    then show ?thesis by (simp add: run_loop_exit)
  next
    case True
    let ?ctx1 = "ctx\<lparr>iteration := Suc (iteration ctx)\<rparr>"
    from "1.prems"(2) obtain r where
      r: "llm_invoke env (Suc (iteration ctx)) (build_messages env hist ?ctx1) = Inr r"
         "has_tool_calls r"
      by blast
    from "1.prems"(3) obtain evs sp where
      d: "executeAll env r (record_thinking env r ?ctx1) = (evs, Inr sp)"
      by blast
    define acts where "acts = pass_actions env hist ?ctx1 r evs"
    define ctx' where "ctx' = (record_thinking env r ?ctx1)\<lparr>scratchpad := sp\<rparr>"
    have body: "loop_body env cfg hist ctx = Continue acts ctx'"
      using loop_body_tool_calls [OF _ r d] "1.prems"(1) by (simp add: acts_def ctx'_def)
    have it: "iteration ctx' = Suc (iteration ctx)"
      using loop_body_Continue_invoke [OF body] by simp
    from "1.IH" [OF True body "1.prems"] obtain pre where
      pre: "run_loop env cfg hist ctx' =
              pre @ [Yield (Done (budget_answer env
                       ((next_context env cfg hist ^^ (?M - iteration ctx')) ctx')))]"
           "filter is_terminal pre = []"
           "length (filter is_invoke pre) = ?M - iteration ctx'"
      by blast
    have steps: "?M - iteration ctx = Suc (?M - iteration ctx')"
      using True it by simp
    have nxt: "next_context env cfg hist ctx = ctx'"
      by (simp add: next_context_def body)
    have "(next_context env cfg hist ^^ (?M - iteration ctx)) ctx
            = (next_context env cfg hist ^^ (?M - iteration ctx')) ctx'"
      by (simp add: steps funpow_swap1 nxt)
    moreover have "run_loop env cfg hist ctx = acts @ run_loop env cfg hist ctx'"
      using True body by (rule run_loop_Continue)
    moreover have "filter is_terminal (acts @ pre) = []"
      using loop_body_Continue_quiet [OF body] pre(2) by simp
    moreover have "length (filter is_invoke (acts @ pre)) = ?M - iteration ctx"
      using loop_body_Continue_invoke [OF body] pre(3) steps by simp
    ultimately show ?thesis using pre(1) by (metis append.assoc)
  qed
qed

lemma example_env_tools:
  "\<forall>i ms. \<exists>r. llm_invoke example_env i ms = Inr r \<and> has_tool_calls r"
  by (simp add: example_env_def has_tool_calls_def tool_reply_def)

lemma example_env_dispatch:
  "\<forall>r c. \<exists>evs sp. executeAll example_env r c = (evs, Inr sp)"
  by (simp add: example_env_def example_dispatch_def)

subsection \<open>Terminal signals\<close>

text \<open>
  Claim C1. Every run started through \<^verbatim>\<open>runAgent\<close> produces exactly one terminal signal,
  a \<^verbatim>\<open>done\<close> event or an error thrown out of the generator, and that signal is the last
  thing the run does. As written, \<^verbatim>\<open>runAgent\<close> calls \<^verbatim>\<open>run\<close> on the promise that
  \<^verbatim>\<open>Agent.create\<close> returns, so its one signal is the \<^verbatim>\<open>TypeError\<close> of that call; the
  same holds of every run of \<^verbatim>\<open>Agent.run\<close> itself, to which it is meant to forward.
\<close>

theorem C1_one_terminal_signal_last:
  "runAgent env cfg q hist \<noteq> []
   \<and> length (filter is_terminal (runAgent env cfg q hist)) = 1
   \<and> is_terminal (last (runAgent env cfg q hist))
   \<and> run env cfg q hist \<noteq> []
   \<and> length (filter is_terminal (run env cfg q hist)) = 1
   \<and> is_terminal (last (run env cfg q hist))"
proof -
  obtain pre t where "run env cfg q hist = pre @ [t]" "is_terminal t" "filter is_terminal pre = []"
    unfolding run_def using run_loop_terminal by blast
  from one_terminal_last [OF this] show ?thesis
    by (simp add: runAgent_def Agent_create_def)
qed

subsection \<open>Exhausting the iteration budget\<close>

text \<open>
  Claim C2, as amended. With \<^verbatim>\<open>maxIterations = M\<close>, if the cancellation token is not
  signalled at any pass, every model call returns a reply that requests at least one tool
  call, and every dispatch returns, then \<^verbatim>\<open>Agent.run\<close> invokes the model exactly \<open>M\<close> times
  and then ends with a \<^verbatim>\<open>done\<close> event whose answer is the budget note followed by the tool
  results of the scratchpad after \<open>M\<close> passes, carrying \<open>iterations = M\<close>; nothing is thrown.
\<close>

theorem C2_budget_exhausted_done:
  assumes "maxIterations cfg = Some M"
    and "\<forall>i. \<not> signal_aborted cfg i"
    and "\<forall>i ms. \<exists>r. llm_invoke env i ms = Inr r \<and> has_tool_calls r"
    and "\<forall>r c. \<exists>evs sp. executeAll env r c = (evs, Inr sp)"
  shows "\<exists>pre d. run env cfg q hist = pre @ [Yield (Done d)]
           \<and> filter is_terminal pre = []
           \<and> length (filter is_invoke pre) = M
           \<and> d = budget_answer env ((next_context env cfg hist ^^ M) (createRunContext q))
           \<and> iterations d = M
           \<and> answer d = budget_note @ getToolResults env
                 (scratchpad ((next_context env cfg hist ^^ M) (createRunContext q)))"
proof -
  let ?c0 = "createRunContext q"
  let ?cM = "(next_context env cfg hist ^^ M) ?c0"
  have M: "max_iterations cfg - iteration ?c0 = M"
    using assms(1) by (simp add: max_iterations_def createRunContext_def)
  from budget_loop [OF assms(2-4), of hist ?c0] obtain pre where
    pre: "run env cfg q hist = pre @ [Yield (Done (budget_answer env ?cM))]"
         "filter is_terminal pre = []" "length (filter is_invoke pre) = M"
    unfolding run_def M by blast
  have "iteration ((next_context env cfg hist ^^ n) ?c0) = n" if "n \<le> M" for n
    using that
  proof (induction n)
    case 0
    show ?case by (simp add: createRunContext_def)
  next
    case (Suc n)
    let ?c = "(next_context env cfg hist ^^ n) ?c0"
    have n: "iteration ?c = n" using Suc by simp
    from assms(3) obtain r where
      r: "llm_invoke env (Suc (iteration ?c))
            (build_messages env hist (?c\<lparr>iteration := Suc (iteration ?c)\<rparr>)) = Inr r"
         "has_tool_calls r"
      by blast
    from assms(4) obtain evs sp where
      d: "executeAll env r (record_thinking env r (?c\<lparr>iteration := Suc (iteration ?c)\<rparr>))
            = (evs, Inr sp)"
      by blast
    have "\<exists>acts c'. loop_body env cfg hist ?c = Continue acts c'"
      using loop_body_tool_calls [OF _ r d] assms(2) by simp
    then obtain acts c' where body: "loop_body env cfg hist ?c = Continue acts c'"
      by blast
    then have "iteration (next_context env cfg hist ?c) = Suc (iteration ?c)"
      using loop_body_Continue_invoke [OF body] by (simp add: next_context_def)
    with n show ?case by simp
  qed
  then have "iteration ?cM = M" by simp
  with pre show ?thesis by (simp add: budget_answer_def)
qed

theorem C2_budget_exhausted_done_witness:
  "\<exists>pre d. run example_env config_one_pass ''price of AAPL'' None = pre @ [Yield (Done d)]
      \<and> filter is_terminal pre = []
      \<and> length (filter is_invoke pre) = 1
      \<and> d = budget_answer example_env
            ((next_context example_env config_one_pass None ^^ 1) (createRunContext ''price of AAPL''))
      \<and> iterations d = 1
      \<and> answer d = budget_note @ getToolResults example_env
            (scratchpad ((next_context example_env config_one_pass None ^^ 1)
               (createRunContext ''price of AAPL'')))"
proof -
  have m: "maxIterations config_one_pass = Some 1"
    by (simp add: config_one_pass_def)
  have s: "\<forall>i. \<not> signal_aborted config_one_pass i"
    by (simp add: signal_aborted_def config_one_pass_def)
  show ?thesis
    by (rule C2_budget_exhausted_done [OF m s example_env_tools example_env_dispatch])
qed

text \<open>
  Claim C2 as stated fails when the token is signalled: with \<^verbatim>\<open>maxIterations = 1\<close> and a
  model that always requests a tool call, the run throws the cancellation error at the
  first pass and emits no \<^verbatim>\<open>done\<close> event.
\<close>

theorem C2_counterexample:
  "maxIterations config_cancelled = Some 1
   \<and> llm_invoke example_env = (\<lambda>i ms. Inr tool_reply)
   \<and> has_tool_calls tool_reply
   \<and> run example_env config_cancelled ''price of AAPL'' None = [Throw cancelled]"
proof -
  have "iteration (createRunContext ''price of AAPL'') < max_iterations config_cancelled"
    by (simp add: createRunContext_def max_iterations_def config_cancelled_def)
  moreover have "signal_aborted config_cancelled (Suc (iteration (createRunContext ''price of AAPL'')))"
    by (simp add: signal_aborted_def config_cancelled_def)
  ultimately have "run example_env config_cancelled ''price of AAPL'' None = [Throw cancelled]"
    by (simp add: run_def run_loop_Leave loop_body_cancelled)
  then show ?thesis
    by (simp add: config_cancelled_def example_env_def has_tool_calls_def tool_reply_def)
qed


subsection \<open>A reply with tool calls\<close>




subsection \<open>Cancellation\<close>



section \<open>Retries of the language-model call\<close>

lemma withRetry_loop_success:
  "attempt < n \<Longrightarrow> fn attempt = Inr v \<Longrightarrow>
     withRetry_loop fn provider n attempt = ([Attempt attempt], Inr v)"
  by (simp add: withRetry_loop.simps [of fn provider n attempt])

lemma withRetry_loop_last:
  "Suc attempt = n \<Longrightarrow> fn attempt = Inl e \<Longrightarrow>
     withRetry_loop fn provider n attempt =
       ([Attempt attempt, LogError provider (Suc attempt) n (error_message e)], Inl e)"
  by (auto simp: withRetry_loop.simps [of fn provider n attempt])

lemma withRetry_loop_retry:
  "Suc attempt < n \<Longrightarrow> fn attempt = Inl e \<Longrightarrow>
     withRetry_loop fn provider n attempt =
       ([Attempt attempt, LogError provider (Suc attempt) n (error_message e),
         Sleep (500 * 2 ^ attempt)] @ fst (withRetry_loop fn provider n (Suc attempt)),
        snd (withRetry_loop fn provider n (Suc attempt)))"
  by (auto simp: withRetry_loop.simps [of fn provider n attempt] split: prod.splits)

lemma withRetry_3:
  "withRetry fn provider 3 =
     (case fn 0 of
        Inr v \<Rightarrow> ([Attempt 0], Inr v)
      | Inl e0 \<Rightarrow>
         (case fn 1 of
            Inr v \<Rightarrow>
              ([Attempt 0, LogError provider 1 3 (error_message e0), Sleep 500, Attempt 1], Inr v)
          | Inl e1 \<Rightarrow>
             (case fn 2 of
                Inr v \<Rightarrow>
                  ([Attempt 0, LogError provider 1 3 (error_message e0), Sleep 500,
                    Attempt 1, LogError provider 2 3 (error_message e1), Sleep 1000,
                    Attempt 2], Inr v)
              | Inl e2 \<Rightarrow>
                  ([Attempt 0, LogError provider 1 3 (error_message e0), Sleep 500,
                    Attempt 1, LogError provider 2 3 (error_message e1), Sleep 1000,
                    Attempt 2, LogError provider 3 3 (error_message e2)], Inl e2))))"
proof (cases "fn 0")
  case (Inr v)
  then show ?thesis by (simp add: withRetry_def withRetry_loop_success)
next
  case e0: (Inl e0)
  have l0: "withRetry fn provider 3 =
       ([Attempt 0, LogError provider 1 3 (error_message e0), Sleep 500]
          @ fst (withRetry_loop fn provider 3 1),
        snd (withRetry_loop fn provider 3 1))"
    unfolding withRetry_def using withRetry_loop_retry [of 0 3 fn e0 provider] e0 by simp
  show ?thesis
  proof (cases "fn 1")
    case (Inr v)
    then show ?thesis using e0 l0 by (simp add: withRetry_loop_success)
  next
    case e1: (Inl e1)
    have l1: "withRetry_loop fn provider 3 1 =
       ([Attempt 1, LogError provider 2 3 (error_message e1), Sleep 1000]
          @ fst (withRetry_loop fn provider 3 2),
        snd (withRetry_loop fn provider 3 2))"
      using withRetry_loop_retry [of 1 3 fn e1 provider] e1 by (simp add: numeral_2_eq_2)
    show ?thesis
    proof (cases "fn 2")
      case (Inr v)
      then show ?thesis using e0 e1 l0 l1 by (simp add: withRetry_loop_success)
    next
      case e2: (Inl e2)
      have "withRetry_loop fn provider 3 2 =
          ([Attempt 2, LogError provider 3 3 (error_message e2)], Inl e2)"
        using withRetry_loop_last [of 2 3 fn e2 provider] e2 by (simp add: numeral_3_eq_3 numeral_2_eq_2)
      then show ?thesis using e0 e1 e2 l0 l1 by simp
    qed
  qed
qed

lemma resolveProvider_gpt: "resolveProvider ''gpt-4o'' = defaultProvider"
  by (simp add: resolveProvider_def PROVIDERS_def prefix_matches_def startsWith_def endsWith_def Let_def)

lemma createLLM_gpt:
  "penv ''OPENAI_API_KEY'' = Some ''sk-test'' \<Longrightarrow>
   createLLM penv
     \<lparr>cfg_model = Some ''gpt-4o'', cfg_provider = None, cfg_streaming = None, cfg_apiKeys = None\<rparr>
   = Inr openai_client"
  by (simp add: createLLM_def str_or_def resolveProvider_gpt defaultProvider_def MODEL_FACTORIES_def
        openai_factory_def with_key_def getApiKey_def openai_client_def)

text \<open>An error in the construction of the client is thrown before any attempt.\<close>

lemma callLlm_no_client:
  "createLLM (process_env env)
             \<lparr>cfg_model = Some (case opt_model opts of Some m \<Rightarrow> m | None \<Rightarrow> DEFAULT_MODEL),
              cfg_provider = None, cfg_streaming = None, cfg_apiKeys = opt_apiKeys opts\<rparr> = Inl e
   \<Longrightarrow> callLlm env prompt opts = ([], Inl e)"
  by (simp add: callLlm_def)

text \<open>A value that the retry loop returns is one that a call of \<^verbatim>\<open>fn\<close> returned.\<close>

lemma withRetry_loop_message:
  "\<forall>k w. fn k = Inr w \<longrightarrow> P w \<Longrightarrow> snd (withRetry_loop fn p n a) = Inr v \<Longrightarrow> P v"
proof (induction fn p n a rule: withRetry_loop.induct)
  case (1 fn provider maxAttempts attempt)
  show ?case
  proof (cases "attempt < maxAttempts")
    case False
    with "1.prems"(2) show ?thesis
      by (simp add: withRetry_loop.simps [of fn provider maxAttempts attempt])
  next
    case lt: True
    show ?thesis
    proof (cases "fn attempt")
      case (Inr w)
      with lt "1.prems" show ?thesis
        by (simp add: withRetry_loop_success)
    next
      case (Inl e)
      show ?thesis
      proof (cases "attempt = maxAttempts - 1")
        case True
        then have "Suc attempt = maxAttempts" using lt by simp
        with Inl "1.prems"(2) show ?thesis
          using withRetry_loop_last [of attempt maxAttempts fn e provider] by simp
      next
        case False
        then have "Suc attempt < maxAttempts" using lt by simp
        with Inl "1.prems"(2) withRetry_loop_retry [of attempt maxAttempts fn e provider]
        have "snd (withRetry_loop fn provider maxAttempts (attempt + 1)) = Inr v"
          by simp
        from "1.IH" [OF lt Inl False "1.prems"(1) this] show ?thesis by simp
      qed
    qed
  qed
qed

text \<open>
  Claim C8. Once \<^verbatim>\<open>callLlm\<close> has built its client, the invocation of the chain is
  attempted at most three times: a success at any attempt is returned at once; after a
  failed first attempt it sleeps 500 ms, after a failed second attempt 1000 ms
  (\<open>500 \<cdot> 2\<^sup>k\<close> after attempt \<open>k\<close>, counted from 0); the error of the third attempt is
  rethrown, with no sleep after it, and no earlier error is.
\<close>

theorem C8_callLlm_retries:
  assumes "createLLM (process_env env)
             \<lparr>cfg_model = Some (case opt_model opts of Some m \<Rightarrow> m | None \<Rightarrow> DEFAULT_MODEL),
              cfg_provider = None, cfg_streaming = None, cfg_apiKeys = opt_apiKeys opts\<rparr> = Inr client"
    and "fn = chain_invoke env (choose_runnable client opts)
                (case opt_systemPrompt opts of Some s \<Rightarrow> s | None \<Rightarrow> DEFAULT_SYSTEM_PROMPT env)
                prompt"
    and "p = displayName (resolveProvider
                (case opt_model opts of Some m \<Rightarrow> m | None \<Rightarrow> DEFAULT_MODEL))"
  shows "callLlm env prompt opts =
     (case fn 0 of
        Inr v \<Rightarrow> ([Attempt 0], Inr (shape_result opts v))
      | Inl e0 \<Rightarrow>
         (case fn 1 of
            Inr v \<Rightarrow>
              ([Attempt 0, LogError p 1 3 (error_message e0), Sleep 500, Attempt 1],
               Inr (shape_result opts v))
          | Inl e1 \<Rightarrow>
             (case fn 2 of
                Inr v \<Rightarrow>
                  ([Attempt 0, LogError p 1 3 (error_message e0), Sleep 500,
                    Attempt 1, LogError p 2 3 (error_message e1), Sleep 1000,
                    Attempt 2], Inr (shape_result opts v))
              | Inl e2 \<Rightarrow>
                  ([Attempt 0, LogError p 1 3 (error_message e0), Sleep 500,
                    Attempt 1, LogError p 2 3 (error_message e1), Sleep 1000,
                    Attempt 2, LogError p 3 3 (error_message e2)], Inl e2))))"
proof -
  have "callLlm env prompt opts =
      (case withRetry fn p 3 of
         (effs, r) \<Rightarrow> (effs, (case r of Inl e \<Rightarrow> Inl e
                                       | Inr result \<Rightarrow> Inr (shape_result opts result))))"
    using assms by (simp add: callLlm_def Let_def)
  then show ?thesis
    by (simp add: withRetry_3 split: sum.splits)
qed

theorem C8_callLlm_retries_witness:
  "callLlm flaky_llm ''price of AAPL'' plain_options =
     ([Attempt 0, LogError ''OpenAI'' 1 3 ''rate limited'', Sleep 500,
       Attempt 1, LogError ''OpenAI'' 2 3 ''rate limited'', Sleep 1000,
       Attempt 2],
      Inr \<lparr>response = ResponseContent (JStr ''I cannot route this question.''), usage = None\<rparr>)"
proof -
  have c: "createLLM (process_env flaky_llm)
             \<lparr>cfg_model = Some (case opt_model plain_options of Some m \<Rightarrow> m | None \<Rightarrow> DEFAULT_MODEL),
              cfg_provider = None, cfg_streaming = None, cfg_apiKeys = opt_apiKeys plain_options\<rparr>
           = Inr openai_client"
    by (simp add: plain_options_def createLLM_gpt flaky_llm_def)
  have fn: "chain_invoke flaky_llm (choose_runnable openai_client plain_options)
                (case opt_systemPrompt plain_options of Some s \<Rightarrow> s
                 | None \<Rightarrow> DEFAULT_SYSTEM_PROMPT flaky_llm) ''price of AAPL''
            = (\<lambda>k. if k < 2 then Inl (Error ''rate limited'') else Inr (ResMessage reply_none))"
    by (rule ext) (simp add: chain_invoke_def choose_runnable_def plain_options_def flaky_llm_def)
  have sh: "shape_result plain_options (ResMessage reply_none) =
      \<lparr>response = ResponseContent (JStr ''I cannot route this question.''), usage = None\<rparr>"
    by (simp add: shape_result_def plain_options_def extractUsage_def reply_none_def reply_with_def)
  have p: "displayName (resolveProvider
              (case opt_model plain_options of Some m \<Rightarrow> m | None \<Rightarrow> DEFAULT_MODEL)) = ''OpenAI''"
    by (simp add: plain_options_def resolveProvider_gpt defaultProvider_def)
  show ?thesis
    using C8_callLlm_retries [OF c refl refl, of "''price of AAPL''"]
    by (simp add: fn sh p error_message_def)
qed

section \<open>Properties of the meta-router\<close>

subsection \<open>The combining loop\<close>

lemma combine_step_eq:
  "combine_step env (cd, us) r =
     (AList.update (result_key env r) (result_value r) cd,
      if error_set r then us else us @ sr_sourceUrls r)"
  by (simp add: combine_step_def result_key_def result_value_def Let_def)

lemma foldl_combine_step:
  "foldl (combine_step env) (cd, us) rs =
     (foldl (\<lambda>acc r. AList.update (result_key env r) (result_value r) acc) cd rs,
      us @ concat (map sr_sourceUrls (filter (\<lambda>r. \<not> error_set r) rs)))"
  by (induction rs arbitrary: cd us) (simp_all add: combine_step_eq)

lemma foldl_update_keys:
  "fst ` set (foldl (\<lambda>acc r. AList.update (key r) (val r) acc) cd rs)
     = fst ` set cd \<union> key ` set rs"
proof (induction rs arbitrary: cd)
  case Nil
  show ?case by simp
next
  case (Cons r rs)
  have "set (map fst (AList.update (key r) (val r) cd)) = insert (key r) (set (map fst cd))"
    by (simp only: update_keys) auto
  then have "fst ` set (AList.update (key r) (val r) cd) = insert (key r) (fst ` set cd)"
    by (simp only: set_map)
  with Cons show ?case by simp
qed


lemma foldl_update_stays:
  "\<forall>r \<in> set rs. key r \<noteq> k \<Longrightarrow>
     map_of (foldl (\<lambda>acc r. AList.update (key r) (val r) acc) cd rs) k = map_of cd k"
  by (induction rs arbitrary: cd) (auto simp: update_conv')

lemma foldl_update_written:
  assumes "\<forall>r' \<in> set after. key r' \<noteq> key r"
  shows "map_of (foldl (\<lambda>acc r. AList.update (key r) (val r) acc) cd (before @ r # after)) (key r)
           = Some (val r)"
proof -
  have "map_of (foldl (\<lambda>acc r. AList.update (key r) (val r) acc) cd (before @ r # after)) (key r)
      = map_of (foldl (\<lambda>acc r. AList.update (key r) (val r) acc) cd (before @ [r])) (key r)"
    using foldl_update_stays [OF assms, of val "foldl (\<lambda>acc r. AList.update (key r) (val r) acc) cd (before @ [r])"]
    by simp
  then show ?thesis by (simp add: update_conv')
qed

lemma set_add_distinct: "distinct seen \<Longrightarrow> distinct (set_add seen x)"
  by (simp add: set_add_def)

lemma foldl_set_add_distinct: "distinct seen \<Longrightarrow> distinct (foldl set_add seen xs)"
  by (induction xs arbitrary: seen) (simp_all add: set_add_distinct)

lemma foldl_set_add_set: "set (foldl set_add seen xs) = set seen \<union> set xs"
  by (induction xs arbitrary: seen) (auto simp: set_add_def)

lemma array_from_set_distinct: "distinct (array_from_set xs)"
  by (simp add: array_from_set_def foldl_set_add_distinct)

lemma array_from_set_set: "set (array_from_set xs) = set xs"
  by (simp add: array_from_set_def foldl_set_add_set)

lemma combine_keys:
  "fst ` set (fst (combine env rs)) = result_key env ` set rs"
  by (simp add: combine_def foldl_combine_step foldl_update_keys)



lemma combine_written:
  assumes "\<forall>r' \<in> set after. result_key env r' \<noteq> result_key env r"
  shows "map_of (fst (combine env (before @ r # after))) (result_key env r) = Some (result_value r)"
proof -
  have "fst (combine env (before @ r # after))
      = foldl (\<lambda>acc r. AList.update (result_key env r) (result_value r) acc) [] (before @ r # after)"
    by (simp only: combine_def foldl_combine_step fst_conv)
  then show ?thesis
    using foldl_update_written [of after "result_key env" r "result_value" "[]" before] assms
    by simp
qed

lemma combine_urls:
  "snd (combine env rs) = concat (map sr_sourceUrls (filter (\<lambda>r. \<not> error_set r) rs))"
  by (simp add: combine_def foldl_combine_step)

lemma call_all_length: "length (call_all env tcs) = length tcs"
  by (simp add: call_all_def)

lemma call_all_nth: "i < length tcs \<Longrightarrow> call_all env tcs ! i = call_sub_tool env i (tcs ! i)"
  by (simp add: call_all_def nth_enumerate_eq)

lemma financial_search_calls:
  assumes "snd (callLlm (llm env) q (router_options env modelName keys)) = Inr res"
    and "response res = ResponseMessage (ResMessage m)"
    and "tool_calls m = Some tcs" and "tcs \<noteq> []"
  shows "financial_search env modelName keys q =
           Inr (formatToolResult (JObj (fst (combine env (call_all env tcs))))
                  (map JStr (array_from_set (snd (combine env (call_all env tcs))))))"
  using assms by (simp add: financial_search_def Let_def split: prod.splits)

lemma financial_search_none:
  assumes "snd (callLlm (llm env) q (router_options env modelName keys)) = Inr res"
    and "response res = ResponseMessage (ResMessage m)"
    and "tool_calls m = None \<or> tool_calls m = Some []"
  shows "financial_search env modelName keys q = Inr (no_tools_selected (content m))"
  using assms by (auto simp: financial_search_def)

subsection \<open>The example batches\<close>

lemma example_callLlm:
  "snd (callLlm (llm (example_router reply)) q (router_options (example_router reply) ''gpt-4o'' None))
     = Inr \<lparr>response = ResponseMessage (ResMessage reply), usage = extractUsage (ResMessage reply)\<rparr>"
proof -
  have c: "createLLM (process_env (example_llm reply))
             \<lparr>cfg_model = Some ''gpt-4o'', cfg_provider = None, cfg_streaming = None,
              cfg_apiKeys = None\<rparr> = Inr openai_client"
    by (simp add: createLLM_gpt example_llm_def)
  have inv: "chain_invoke (example_llm reply) (WithTools cl ts) s p 0 = Inr (ResMessage reply)"
    for cl ts s p
    by (simp add: chain_invoke_def example_llm_def)
  show ?thesis
    by (simp add: callLlm_def router_options_def example_router_def c Let_def
        choose_runnable_def withRetry_def withRetry_loop_success inv shape_result_def
        split: prod.splits)
qed

lemma example_tools_simps:
  "example_tools ''get_stock_price'' = Some price_tool"
  "example_tools ''get_income_statements'' = Some statements_tool"
  "example_tools ''get_company_news'' = Some news_tool"
  "example_tools ''get_dividends'' = None"
  by (simp_all add: example_tools_def)

lemma example_try_calls:
  "try_call (example_router reply) i call_price = Inr price_entry"
  "try_call (example_router reply) i call_unknown = Inl (not_found ''get_dividends'')"
  "try_call (example_router reply) i call_annual = Inr annual_entry"
  "try_call (example_router reply) i call_quarterly = Inr quarterly_entry"
  "try_call (example_router reply) i call_news = Inl (Error [])"
  by (simp_all add: try_call_def example_router_def example_tools_simps call_price_def
        call_unknown_def call_annual_def call_quarterly_def call_news_def price_tool_def
        statements_tool_def news_tool_def get_prop_def js_or_def price_entry_def
        annual_entry_def quarterly_entry_def)

lemma call_all_three:
  "call_all env [a, b, c] = [call_sub_tool env 0 a, call_sub_tool env 1 b, call_sub_tool env 2 c]"
  by (simp add: call_all_def numeral_2_eq_2)

lemma call_all_two:
  "call_all env [a, b] = [call_sub_tool env 0 a, call_sub_tool env 1 b]"
  by (simp add: call_all_def)

lemma call_all_one: "call_all env [a] = [call_sub_tool env 0 a]"
  by (simp add: call_all_def)

lemma example_unknown_entry:
  "call_sub_tool (example_router reply) i call_unknown = unknown_entry"
  unfolding call_sub_tool_def example_try_calls
  by (simp add: call_unknown_def unknown_entry_def)

lemma example_mixed:
  "call_all (example_router reply) [call_price, call_unknown] = [price_entry, unknown_entry]"
  unfolding call_all_two example_unknown_entry
  by (simp add: call_sub_tool_def example_try_calls)

lemma example_twice:
  "call_all (example_router reply) [call_annual, call_quarterly] = [annual_entry, quarterly_entry]"
  by (simp add: call_all_two call_sub_tool_def example_try_calls)

lemma example_three:
  "call_all (example_router reply) [call_annual, call_quarterly, call_unknown]
     = [annual_entry, quarterly_entry, unknown_entry]"
  unfolding call_all_three example_unknown_entry
  by (simp add: call_sub_tool_def example_try_calls)

lemma example_keys:
  "result_key env price_entry = ''get_stock_price_AAPL''"
  "result_key env annual_entry = ''get_income_statements_AAPL''"
  "result_key env quarterly_entry = ''get_income_statements_AAPL''"
  "result_key env unknown_entry = ''get_dividends_error''"
  by (simp_all add: result_key_def error_set_def ticker_of_def template_text_def price_entry_def
        annual_entry_def quarterly_entry_def unknown_entry_def error_message_def not_found_def)

lemma example_values:
  "result_value price_entry = JObj [(''price'', JNum 190)]"
  "result_value annual_entry = JObj [(''period'', JStr ''annual'')]"
  "result_value quarterly_entry = JObj [(''period'', JStr ''quarterly'')]"
  "result_value unknown_entry = JStr (error_message (not_found ''get_dividends''))"
  "error_set price_entry = False" "error_set annual_entry = False"
  "error_set quarterly_entry = False" "error_set unknown_entry = True"
  by (simp_all add: result_value_def error_set_def error_text_def price_entry_def
        annual_entry_def quarterly_entry_def unknown_entry_def error_message_def not_found_def)

lemma combine_unfold:
  "combine env rs =
     (foldl (\<lambda>acc r. AList.update (result_key env r) (result_value r) acc) [] rs,
      concat (map sr_sourceUrls (filter (\<lambda>r. \<not> error_set r) rs)))"
  by (simp add: combine_def foldl_combine_step)

lemma example_mixed_combine:
  "combine env [price_entry, unknown_entry] =
     ([(''get_stock_price_AAPL'', JObj [(''price'', JNum 190)]),
       (''get_dividends_error'', JStr (error_message (not_found ''get_dividends'')))],
      [''https://prices.example/AAPL''])"
  by (simp add: combine_unfold example_keys example_values) (simp add: price_entry_def)

lemma example_three_combine:
  "combine env [annual_entry, quarterly_entry, unknown_entry] =
     ([(''get_income_statements_AAPL'', JObj [(''period'', JStr ''quarterly'')]),
       (''get_dividends_error'', JStr (error_message (not_found ''get_dividends'')))],
      [''https://prices.example/AAPL'', ''https://prices.example/AAPL''])"
  by (simp add: combine_unfold example_keys example_values)
     (simp add: annual_entry_def quarterly_entry_def)

lemma example_urls:
  "array_from_set [''https://prices.example/AAPL'', ''https://prices.example/AAPL'']
     = [''https://prices.example/AAPL'']"
  "array_from_set [''https://prices.example/AAPL''] = [''https://prices.example/AAPL'']"
  by (simp_all add: array_from_set_def set_add_def)

lemma example_response:
  "response \<lparr>response = ResponseMessage (ResMessage reply),
              usage = extractUsage (ResMessage reply)\<rparr> = ResponseMessage (ResMessage reply)"
  by simp

lemma example_news_search:
  "financial_search (example_router reply_news) ''gpt-4o'' None ''news on Apple'' =
     Inr (formatToolResult (JObj [(''get_company_news_AAPL'', JNull)]) [])"
proof -
  have "call_all (example_router reply_news) [call_news] =
     [\<lparr>sr_tool = ''get_company_news'', sr_args = [(''ticker'', JStr ''AAPL'')],
       sr_data = JNull, sr_sourceUrls = [], sr_error = Some []\<rparr>]"
    unfolding call_all_one call_sub_tool_def example_try_calls
    by (simp add: call_news_def error_message_def)
  then have "combine (example_router reply_news) (call_all (example_router reply_news) [call_news])
      = ([(''get_company_news_AAPL'', JNull)], [])"
    by (simp add: combine_def combine_step_def error_set_def ticker_of_def template_text_def Let_def)
  then show ?thesis
    using financial_search_calls [OF example_callLlm example_response, of reply_news "[call_news]"
        "''news on Apple''"]
    by (simp add: reply_news_def reply_with_def array_from_set_def)
qed

subsection \<open>Dispatch and merge\<close>

text \<open>With the finance tools passed to \<^verbatim>\<open>callLlm\<close>, the response is the model's message.\<close>

lemma router_response_is_message:
  assumes "snd (callLlm (llm env) q (router_options env modelName keys)) = Inr res"
  shows "\<exists>m. response res = ResponseMessage (ResMessage m)"
proof -
  let ?opts = "router_options env modelName keys"
  from assms obtain client where
    c: "createLLM (process_env (llm env))
             \<lparr>cfg_model = Some modelName, cfg_provider = None, cfg_streaming = None,
              cfg_apiKeys = keys\<rparr> = Inr client"
    by (auto simp: callLlm_def router_options_def split: sum.splits)
  let ?fn = "chain_invoke (llm env) (choose_runnable client ?opts) (buildRouterPrompt env) q"
  from assms c obtain result where
    r: "snd (withRetry ?fn (displayName (resolveProvider modelName)) 3) = Inr result"
       "res = shape_result ?opts result"
    by (auto simp: callLlm_def router_options_def Let_def split: sum.splits prod.splits)
  have "\<forall>k w. ?fn k = Inr w \<longrightarrow> (\<exists>m. w = ResMessage m)"
    by (auto simp: chain_invoke_def choose_runnable_def router_options_def
             split: runnable.splits sum.splits if_splits)
  from withRetry_loop_message [OF this] r(1)
  obtain m where "result = ResMessage m"
    unfolding withRetry_def by blast
  with r(2) show ?thesis
    by (simp add: shape_result_def router_options_def)
qed

lemma call_sub_tool_returned:
  "try_call env i tc = Inr r \<Longrightarrow> call_sub_tool env i tc = r \<and> sr_error r = None"
  by (auto simp: call_sub_tool_def try_call_def split: option.splits sum.splits)

lemma call_sub_tool_thrown:
  "try_call env i tc = Inl e \<Longrightarrow>
     call_sub_tool env i tc =
       \<lparr>sr_tool = tc_name tc, sr_args = tc_args tc, sr_data = JNull, sr_sourceUrls = [],
        sr_error = Some (error_message e)\<rparr>"
  by (simp add: call_sub_tool_def)

lemma try_call_unknown:
  "FINANCE_TOOL_MAP env (tc_name tc) = None \<Longrightarrow> try_call env i tc = Inl (not_found (tc_name tc))"
  by (simp add: try_call_def)

lemma returned_key:
  "sr_error r = None \<Longrightarrow>
     result_key env r =
       (if truthy (ticker_of r) then sr_tool r @ ''_'' @ template_text env (ticker_of r)
        else sr_tool r)
     \<and> result_value r = sr_data r"
  by (simp add: result_key_def result_value_def error_set_def)

lemma failed_key:
  "sr_error r = Some msg \<Longrightarrow> msg \<noteq> [] \<Longrightarrow>
     result_key env r = sr_tool r @ ''_error'' \<and> result_value r = JStr msg"
  by (simp add: result_key_def result_value_def error_set_def error_text_def)

lemma combine_nth_written:
  assumes "j < length rs"
    and "\<forall>j'. j < j' \<and> j' < length rs \<longrightarrow> result_key env (rs ! j') \<noteq> result_key env (rs ! j)"
  shows "map_of (fst (combine env rs)) (result_key env (rs ! j)) = Some (result_value (rs ! j))"
proof -
  have split: "rs = take j rs @ rs ! j # drop (Suc j) rs"
    using assms(1) by (rule id_take_nth_drop)
  have "\<forall>r' \<in> set (drop (Suc j) rs). result_key env r' \<noteq> result_key env (rs ! j)"
  proof
    fix r' assume "r' \<in> set (drop (Suc j) rs)"
    then obtain k where k: "k < length (drop (Suc j) rs)" "r' = drop (Suc j) rs ! k"
      by (auto simp: in_set_conv_nth)
    then have "r' = rs ! (Suc j + k)" "Suc j + k < length rs" by simp_all
    with assms(2) show "result_key env r' \<noteq> result_key env (rs ! j)" by simp
  qed
  from combine_written [OF this, of "take j rs"] split show ?thesis by simp
qed

text \<open>
  Claim C7, as amended. When the routing call returns a message that selects no sub-tool
  (no \<^verbatim>\<open>tool_calls\<close>, or an empty list), \<^verbatim>\<open>financial_search\<close> returns normally
  with a formatted result without source URLs whose payload is the pair of the error text
  \<^verbatim>\<open>No tools selected for query\<close> and a message; the message is the content of the
  router's reply when that content is a plain string, and the fixed text
  \<^verbatim>\<open>Router did not select tools\<close> when it is anything else. The call does not throw.
\<close>

theorem C7_no_tools_selected:
  assumes "snd (callLlm (llm env) q (router_options env modelName keys)) = Inr res"
    and "response res = ResponseMessage (ResMessage m)"
    and "tool_calls m = None \<or> tool_calls m = Some []"
  shows "financial_search env modelName keys q =
           Inr (formatToolResult
                  (JObj [(''error'', JStr ''No tools selected for query''),
                         (''message'', JStr (case content m of
                                              JStr s \<Rightarrow> s
                                            | _ \<Rightarrow> ''Router did not select tools''))])
                  [])"
  using financial_search_none [OF assms]
  by (simp add: no_tools_selected_def split: jsval.splits)

theorem C7_no_tools_selected_witness:
  "financial_search (example_router reply_none) ''gpt-4o'' None ''what is love'' =
     Inr (formatToolResult
            (JObj [(''error'', JStr ''No tools selected for query''),
                   (''message'', JStr ''I cannot route this question.'')])
            [])"
proof -
  have t: "tool_calls reply_none = None \<or> tool_calls reply_none = Some []"
    by (simp add: reply_none_def reply_with_def)
  have r: "response \<lparr>response = ResponseMessage (ResMessage reply_none),
                      usage = extractUsage (ResMessage reply_none)\<rparr>
             = ResponseMessage (ResMessage reply_none)"
    by simp
  show ?thesis
    using C7_no_tools_selected [OF example_callLlm r t, of "''what is love''"]
    by (simp add: reply_none_def reply_with_def)
qed

text \<open>
  Claim C7 as stated fails where the router's reply is not a plain string: the reply
  below selects no tool and carries its text in a content block, and the payload holds the
  fixed text in place of the router's message.
\<close>

theorem C7_counterexample:
  "content reply_blocks =
     JArr [JObj [(''type'', JStr ''text''), (''text'', JStr ''I cannot route this question.'')]]
   \<and> tool_calls reply_blocks = None
   \<and> financial_search (example_router reply_blocks) ''gpt-4o'' None ''what is love'' =
       Inr (formatToolResult
              (JObj [(''error'', JStr ''No tools selected for query''),
                     (''message'', JStr ''Router did not select tools'')])
              [])"
proof -
  have t: "tool_calls reply_blocks = None \<or> tool_calls reply_blocks = Some []"
    by (simp add: reply_blocks_def reply_with_def)
  have "financial_search (example_router reply_blocks) ''gpt-4o'' None ''what is love'' =
          Inr (no_tools_selected (content reply_blocks))"
    by (rule financial_search_none [OF example_callLlm example_response t])
  then show ?thesis
    by (simp add: no_tools_selected_def reply_blocks_def reply_with_def)
qed

text \<open>
  Claim C6, as amended. When the body of a wrapped sub-tool call throws (a tool name absent
  from the map throws the not-found error), the wrapper returns an entry with the error's
  message, no data and no URLs; the batch is not aborted: \<^verbatim>\<open>financial_search\<close> returns
  the merged object, one entry was made per call, the message of an error, when it is not
  empty, is stored as a string under the tool's \<^verbatim>\<open>_error\<close> key, and every call that
  returned is stored under its key (the tool's name, followed by the ticker when there is
  one); the message and the data stay under their keys unless a later call of the batch is
  stored under the same key.
\<close>

theorem C6_thrown_error_becomes_entry:
  assumes "snd (callLlm (llm env) q (router_options env modelName keys)) = Inr res"
    and "response res = ResponseMessage (ResMessage m)"
    and "tool_calls m = Some tcs"
    and "i < length tcs"
    and "try_call env i (tcs ! i) = Inl e"
    and "results = call_all env tcs"
  shows "financial_search env modelName keys q =
           Inr (formatToolResult (JObj (fst (combine env results)))
                  (map JStr (array_from_set (snd (combine env results)))))
       \<and> length results = length tcs
       \<and> results ! i =
           \<lparr>sr_tool = tc_name (tcs ! i), sr_args = tc_args (tcs ! i), sr_data = JNull,
            sr_sourceUrls = [], sr_error = Some (error_message e)\<rparr>
       \<and> (FINANCE_TOOL_MAP env (tc_name (tcs ! i)) = None \<longrightarrow> e = not_found (tc_name (tcs ! i)))
       \<and> (error_message e \<noteq> [] \<longrightarrow>
            result_key env (results ! i) = tc_name (tcs ! i) @ ''_error''
            \<and> tc_name (tcs ! i) @ ''_error'' \<in> fst ` set (fst (combine env results))
            \<and> ((\<forall>j'. i < j' \<and> j' < length tcs \<longrightarrow>
                    result_key env (results ! j') \<noteq> tc_name (tcs ! i) @ ''_error'') \<longrightarrow>
                 map_of (fst (combine env results)) (tc_name (tcs ! i) @ ''_error'')
                   = Some (JStr (error_message e))))
       \<and> (\<forall>j r. j < length tcs \<and> try_call env j (tcs ! j) = Inr r \<longrightarrow>
            results ! j = r
            \<and> result_key env r =
                (if truthy (ticker_of r) then sr_tool r @ ''_'' @ template_text env (ticker_of r)
                 else sr_tool r)
            \<and> result_key env r \<in> fst ` set (fst (combine env results))
            \<and> ((\<forall>j'. j < j' \<and> j' < length tcs \<longrightarrow>
                    result_key env (results ! j') \<noteq> result_key env r) \<longrightarrow>
                 map_of (fst (combine env results)) (result_key env r) = Some (sr_data r)))"
proof -
  have ne: "tcs \<noteq> []" using assms(4) by auto
  have len: "length results = length tcs"
    by (simp add: assms(6) call_all_length)
  have search: "financial_search env modelName keys q =
           Inr (formatToolResult (JObj (fst (combine env results)))
                  (map JStr (array_from_set (snd (combine env results)))))"
    unfolding assms(6) by (rule financial_search_calls [OF assms(1,2,3) ne])
  have entry: "results ! i =
           \<lparr>sr_tool = tc_name (tcs ! i), sr_args = tc_args (tcs ! i), sr_data = JNull,
            sr_sourceUrls = [], sr_error = Some (error_message e)\<rparr>"
    by (simp add: assms(6) call_all_nth [OF assms(4)] call_sub_tool_thrown [OF assms(5)])
  have unknown: "FINANCE_TOOL_MAP env (tc_name (tcs ! i)) = None \<longrightarrow> e = not_found (tc_name (tcs ! i))"
    using assms(5) try_call_unknown [of env "tcs ! i" i] by auto
  have keys: "fst ` set (fst (combine env results)) = result_key env ` set results"
    by (rule combine_keys)
  have errkey: "error_message e \<noteq> [] \<longrightarrow>
            result_key env (results ! i) = tc_name (tcs ! i) @ ''_error''
            \<and> tc_name (tcs ! i) @ ''_error'' \<in> fst ` set (fst (combine env results))
            \<and> ((\<forall>j'. i < j' \<and> j' < length tcs \<longrightarrow>
                    result_key env (results ! j') \<noteq> tc_name (tcs ! i) @ ''_error'') \<longrightarrow>
                 map_of (fst (combine env results)) (tc_name (tcs ! i) @ ''_error'')
                   = Some (JStr (error_message e)))"
  proof
    assume msg: "error_message e \<noteq> []"
    have key: "result_key env (results ! i) = tc_name (tcs ! i) @ ''_error''"
      and val: "result_value (results ! i) = JStr (error_message e)"
      using failed_key [of "results ! i" "error_message e" env] msg entry by simp_all
    have "results ! i \<in> set results"
      using assms(4) len by simp
    with key have present: "tc_name (tcs ! i) @ ''_error'' \<in> fst ` set (fst (combine env results))"
      unfolding keys by (metis imageI)
    have stays: "(\<forall>j'. i < j' \<and> j' < length tcs \<longrightarrow>
                    result_key env (results ! j') \<noteq> tc_name (tcs ! i) @ ''_error'') \<longrightarrow>
                 map_of (fst (combine env results)) (tc_name (tcs ! i) @ ''_error'')
                   = Some (JStr (error_message e))"
    proof
      assume "\<forall>j'. i < j' \<and> j' < length tcs \<longrightarrow>
                    result_key env (results ! j') \<noteq> tc_name (tcs ! i) @ ''_error''"
      then have later: "\<forall>j'. i < j' \<and> j' < length results \<longrightarrow>
                    result_key env (results ! j') \<noteq> result_key env (results ! i)"
        by (simp add: len key)
      have "i < length results" using assms(4) len by simp
      from combine_nth_written [OF this later]
      show "map_of (fst (combine env results)) (tc_name (tcs ! i) @ ''_error'')
                   = Some (JStr (error_message e))"
        by (simp add: key val)
    qed
    show "result_key env (results ! i) = tc_name (tcs ! i) @ ''_error''
            \<and> tc_name (tcs ! i) @ ''_error'' \<in> fst ` set (fst (combine env results))
            \<and> ((\<forall>j'. i < j' \<and> j' < length tcs \<longrightarrow>
                    result_key env (results ! j') \<noteq> tc_name (tcs ! i) @ ''_error'') \<longrightarrow>
                 map_of (fst (combine env results)) (tc_name (tcs ! i) @ ''_error'')
                   = Some (JStr (error_message e)))"
      by (intro conjI key present stays)
  qed
  have others: "\<forall>j r. j < length tcs \<and> try_call env j (tcs ! j) = Inr r \<longrightarrow>
            results ! j = r
            \<and> result_key env r =
                (if truthy (ticker_of r) then sr_tool r @ ''_'' @ template_text env (ticker_of r)
                 else sr_tool r)
            \<and> result_key env r \<in> fst ` set (fst (combine env results))
            \<and> ((\<forall>j'. j < j' \<and> j' < length tcs \<longrightarrow>
                    result_key env (results ! j') \<noteq> result_key env r) \<longrightarrow>
                 map_of (fst (combine env results)) (result_key env r) = Some (sr_data r))"
  proof (intro allI impI, elim conjE)
    fix j r
    assume j: "j < length tcs" and ok: "try_call env j (tcs ! j) = Inr r"
    have rj: "results ! j = r" and none: "sr_error r = None"
      using call_sub_tool_returned [OF ok] by (simp_all add: assms(6) call_all_nth [OF j])
    have mem: "r \<in> set results"
      using j len rj by (metis nth_mem)
    have present: "result_key env r \<in> fst ` set (fst (combine env results))"
      unfolding keys using mem by (rule imageI)
    have stays: "(\<forall>j'. j < j' \<and> j' < length tcs \<longrightarrow>
                    result_key env (results ! j') \<noteq> result_key env r) \<longrightarrow>
                 map_of (fst (combine env results)) (result_key env r) = Some (sr_data r)"
    proof
      assume "\<forall>j'. j < j' \<and> j' < length tcs \<longrightarrow>
                    result_key env (results ! j') \<noteq> result_key env r"
      then have "\<forall>j'. j < j' \<and> j' < length results \<longrightarrow>
                    result_key env (results ! j') \<noteq> result_key env (results ! j)"
        by (simp add: len rj)
      from combine_nth_written [OF _ this] j len rj returned_key [OF none, of env]
      show "map_of (fst (combine env results)) (result_key env r) = Some (sr_data r)"
        by simp
    qed
    have key: "result_key env r =
                (if truthy (ticker_of r) then sr_tool r @ ''_'' @ template_text env (ticker_of r)
                 else sr_tool r)"
      using returned_key [OF none, of env] by (rule conjunct1)
    show "results ! j = r
            \<and> result_key env r =
                (if truthy (ticker_of r) then sr_tool r @ ''_'' @ template_text env (ticker_of r)
                 else sr_tool r)
            \<and> result_key env r \<in> fst ` set (fst (combine env results))
            \<and> ((\<forall>j'. j < j' \<and> j' < length tcs \<longrightarrow>
                    result_key env (results ! j') \<noteq> result_key env r) \<longrightarrow>
                 map_of (fst (combine env results)) (result_key env r) = Some (sr_data r))"
      by (intro conjI rj key present stays)
  qed
  show ?thesis
    by (intro conjI search len entry unknown errkey others)
qed

theorem C6_thrown_error_becomes_entry_witness:
  "financial_search (example_router reply_mixed) ''gpt-4o'' None ''price and dividends of Apple'' =
     Inr (formatToolResult
            (JObj [(''get_stock_price_AAPL'', JObj [(''price'', JNum 190)]),
                   (''get_dividends_error'', JStr (error_message (not_found ''get_dividends'')))])
            [JStr ''https://prices.example/AAPL''])
   \<and> call_all (example_router reply_mixed) [call_price, call_unknown] ! 1 = unknown_entry
   \<and> ''get_dividends_error''
       \<in> fst ` set (fst (combine (example_router reply_mixed)
                            (call_all (example_router reply_mixed) [call_price, call_unknown])))
   \<and> map_of (fst (combine (example_router reply_mixed)
                    (call_all (example_router reply_mixed) [call_price, call_unknown])))
        ''get_dividends_error'' = Some (JStr (''Tool '' @ [CHR 0x27] @ ''get_dividends'' @ [CHR 0x27] @ '' not found''))
   \<and> try_call (example_router reply_mixed) 0 call_price = Inr price_entry
   \<and> map_of (fst (combine (example_router reply_mixed)
                    (call_all (example_router reply_mixed) [call_price, call_unknown])))
        ''get_stock_price_AAPL'' = Some (JObj [(''price'', JNum 190)])"
proof -
  let ?env = "example_router reply_mixed"
  let ?tcs = "[call_price, call_unknown]"
  have t: "tool_calls reply_mixed = Some ?tcs"
    by (simp add: reply_mixed_def reply_with_def)
  have i: "1 < length ?tcs" by simp
  have e: "try_call ?env 1 (?tcs ! 1) = Inl (not_found ''get_dividends'')"
    by (simp add: example_try_calls)
  note inst = C6_thrown_error_becomes_entry [OF example_callLlm example_response t i e refl,
      of "''price and dividends of Apple''"]
  have search: "financial_search ?env ''gpt-4o'' None ''price and dividends of Apple'' =
     Inr (formatToolResult
            (JObj [(''get_stock_price_AAPL'', JObj [(''price'', JNum 190)]),
                   (''get_dividends_error'', JStr (error_message (not_found ''get_dividends'')))])
            [JStr ''https://prices.example/AAPL''])"
    using inst by (simp add: example_mixed example_mixed_combine example_urls)
  have entry: "call_all ?env ?tcs ! 1 = unknown_entry"
    using inst by (simp add: unknown_entry_def call_unknown_def)
  have msg: "error_message (not_found ''get_dividends'') \<noteq> []"
    by (simp add: error_message_def not_found_def)
  have errkey: "''get_dividends_error'' \<in> fst ` set (fst (combine ?env (call_all ?env ?tcs)))"
    using inst msg by (simp add: call_unknown_def)
  have last: "\<forall>j'. 1 < j' \<and> j' < length ?tcs \<longrightarrow>
      result_key ?env (call_all ?env ?tcs ! j') \<noteq> tc_name (?tcs ! 1) @ ''_error''"
    by (auto simp: less_Suc_eq)
  from inst msg last have "map_of (fst (combine ?env (call_all ?env ?tcs)))
        (tc_name (?tcs ! 1) @ ''_error'') = Some (JStr (error_message (not_found ''get_dividends'')))"
    by blast
  then have errval: "map_of (fst (combine ?env (call_all ?env ?tcs))) ''get_dividends_error''
        = Some (JStr (''Tool '' @ [CHR 0x27] @ ''get_dividends'' @ [CHR 0x27] @ '' not found''))"
    by (simp add: call_unknown_def error_message_def not_found_def)
  have ok: "0 < length ?tcs \<and> try_call ?env 0 (?tcs ! 0) = Inr price_entry"
    by (simp add: example_try_calls)
  have later: "\<forall>j'. 0 < j' \<and> j' < length ?tcs \<longrightarrow>
      result_key ?env (call_all ?env ?tcs ! j') \<noteq> result_key ?env price_entry"
    by (auto simp: example_mixed example_keys less_Suc_eq)
  from inst have "\<forall>j r. j < length ?tcs \<and> try_call ?env j (?tcs ! j) = Inr r \<longrightarrow>
            call_all ?env ?tcs ! j = r
            \<and> result_key ?env r =
                (if truthy (ticker_of r) then sr_tool r @ ''_'' @ template_text ?env (ticker_of r)
                 else sr_tool r)
            \<and> result_key ?env r \<in> fst ` set (fst (combine ?env (call_all ?env ?tcs)))
            \<and> ((\<forall>j'. j < j' \<and> j' < length ?tcs \<longrightarrow>
                    result_key ?env (call_all ?env ?tcs ! j') \<noteq> result_key ?env r) \<longrightarrow>
                 map_of (fst (combine ?env (call_all ?env ?tcs))) (result_key ?env r)
                   = Some (sr_data r))"
    by (elim conjE)
  with ok later have "map_of (fst (combine ?env (call_all ?env ?tcs))) (result_key ?env price_entry)
      = Some (sr_data price_entry)"
    by blast
  then have stays: "map_of (fst (combine ?env (call_all ?env ?tcs))) ''get_stock_price_AAPL''
      = Some (JObj [(''price'', JNum 190)])"
    by (simp add: example_keys) (simp add: price_entry_def)
  from search entry errkey errval ok stays show ?thesis
    by (intro conjI) simp_all
qed

text \<open>
  Claim C6 as stated fails where two calls share a key: of two calls of the statements
  tool for one ticker followed by an unknown tool, the merged object keeps the second
  call's data only, so the first call's result does not appear.
\<close>

theorem C6_counterexample:
  "tool_calls reply_three = Some [call_annual, call_quarterly, call_unknown]
   \<and> try_call (example_router reply_three) 0 call_annual = Inr annual_entry
   \<and> sr_data annual_entry = JObj [(''period'', JStr ''annual'')]
   \<and> try_call (example_router reply_three) 2 call_unknown = Inl (not_found ''get_dividends'')
   \<and> financial_search (example_router reply_three) ''gpt-4o'' None ''Apple income statements'' =
       Inr (formatToolResult
              (JObj [(''get_income_statements_AAPL'', JObj [(''period'', JStr ''quarterly'')]),
                     (''get_dividends_error'', JStr (error_message (not_found ''get_dividends'')))])
              [JStr ''https://prices.example/AAPL''])"
proof -
  have t: "tool_calls reply_three = Some [call_annual, call_quarterly, call_unknown]"
    by (simp add: reply_three_def reply_with_def)
  have "financial_search (example_router reply_three) ''gpt-4o'' None ''Apple income statements'' =
       Inr (formatToolResult
              (JObj [(''get_income_statements_AAPL'', JObj [(''period'', JStr ''quarterly'')]),
                     (''get_dividends_error'', JStr (error_message (not_found ''get_dividends'')))])
              [JStr ''https://prices.example/AAPL''])"
    using financial_search_calls [OF example_callLlm example_response t,
        of "''Apple income statements''"]
    by (simp add: example_three example_three_combine example_urls)
  with t show ?thesis
    by (simp add: example_try_calls) (simp add: annual_entry_def)
qed











text \<open>
  Claim C5 at a call whose sub-tool throws an error with an empty message: the entry's
  \<^verbatim>\<open>error\<close> is the empty string, the test \<^verbatim>\<open>if (result.error)\<close> fails, and the merged
  object stores \<^verbatim>\<open>null\<close> under \<^verbatim>\<open>get_company_news_AAPL\<close>; there is no
  \<^verbatim>\<open>get_company_news_error\<close> key. The lemma after it gives the keys for every other
  entry and the absence of duplicate URLs.
\<close>

theorem C5_empty_message_failure:
  "tool_calls reply_news = Some [call_news]
   \<and> try_call (example_router reply_news) 0 call_news = Inl (Error [])
   \<and> financial_search (example_router reply_news) ''gpt-4o'' None ''news on Apple'' =
       Inr (formatToolResult (JObj [(''get_company_news_AAPL'', JNull)]) [])"
  by (simp add: example_news_search example_try_calls) (simp add: reply_news_def reply_with_def)

lemma merged_keys_by_outcome:
  assumes "r \<in> set results" and "combine env results = (combinedData, allUrls)"
  shows "(sr_error r = None \<and> truthy (ticker_of r) \<longrightarrow>
            sr_tool r @ ''_'' @ template_text env (ticker_of r) \<in> fst ` set combinedData)
       \<and> (sr_error r = None \<and> \<not> truthy (ticker_of r) \<longrightarrow> sr_tool r \<in> fst ` set combinedData)
       \<and> (\<forall>msg. sr_error r = Some msg \<and> msg \<noteq> [] \<longrightarrow>
            sr_tool r @ ''_error'' \<in> fst ` set combinedData)
       \<and> distinct (map JStr (array_from_set allUrls))
       \<and> set (array_from_set allUrls)
           = (\<Union>r' \<in> {r' \<in> set results. \<not> error_set r'}. set (sr_sourceUrls r'))"
proof -
  have u: "set (array_from_set allUrls)
           = (\<Union>r' \<in> {r' \<in> set results. \<not> error_set r'}. set (sr_sourceUrls r'))"
    using combine_urls [of env results] assms(2) by (auto simp: array_from_set_set)
  have k: "result_key env r \<in> fst ` set combinedData"
    using combine_keys [of env results] assms by (metis fst_conv imageI)
  have d: "distinct (map JStr (array_from_set allUrls))"
    by (simp add: distinct_map array_from_set_distinct inj_on_def)
  show ?thesis
  proof (intro conjI allI impI)
    assume "sr_error r = None \<and> truthy (ticker_of r)"
    with k returned_key [of r env]
    show "sr_tool r @ ''_'' @ template_text env (ticker_of r) \<in> fst ` set combinedData"
      by simp
  next
    assume "sr_error r = None \<and> \<not> truthy (ticker_of r)"
    with k returned_key [of r env] show "sr_tool r \<in> fst ` set combinedData"
      by simp
  next
    fix msg assume "sr_error r = Some msg \<and> msg \<noteq> []"
    with k failed_key [of r msg env] show "sr_tool r @ ''_error'' \<in> fst ` set combinedData"
      by simp
  next
    show "distinct (map JStr (array_from_set allUrls))" by (rule d)
  next
    show "set (array_from_set allUrls)
           = (\<Union>r' \<in> {r' \<in> set results. \<not> error_set r'}. set (sr_sourceUrls r'))"
      by (rule u)
  qed
qed

section \<open>Properties of the finance tools\<close>

lemma try_catch_payload:
  "try_catch body (\<lambda>e. Inr (failure_payload what ticker e)) =
     Inr (case body of Inl e \<Rightarrow> failure_payload what ticker e | Inr r \<Rightarrow> r)"
  by (simp add: try_catch_def split: sum.splits)

lemma av_price_no_key:
  "tools_process_env env ''ALPHA_VANTAGE_API_KEY'' = None \<Longrightarrow>
     av_price_body env ticker = Inl (Error ''ALPHA_VANTAGE_API_KEY is not set in .env'')"
  by (simp add: av_price_body_def str_or_def)

lemma av_price_fetch_fails:
  "tools_process_env env ''ALPHA_VANTAGE_API_KEY'' = Some (c # cs) \<Longrightarrow>
   fetch_json env (av_url ''GLOBAL_QUOTE'' ticker (c # cs)) = Inl e \<Longrightarrow>
     av_price_body env ticker = Inl e"
  by (simp add: av_price_body_def str_or_def then_do_def)

text \<open>
  Claim C9. For every ticker each of the five Yahoo Finance and Alpha Vantage tools returns
  a formatted result and does not throw: the result is the one its body built, or, when the
  body threw, the payload \<^verbatim>\<open>Failed to fetch ... for <ticker>: <error>\<close> with no URLs. In
  particular an unset \<^verbatim>\<open>ALPHA_VANTAGE_API_KEY\<close> and a remote call that throws end in
  such a payload.
\<close>

theorem C9_tools_never_throw:
  "getYahooPriceSnapshot env ticker =
     Inr (case yahoo_price_body env ticker of
            Inl e \<Rightarrow> failure_payload ''price'' ticker e | Inr r \<Rightarrow> r)
   \<and> getYahooFundamentals env ticker =
     Inr (case yahoo_fundamentals_body env ticker of
            Inl e \<Rightarrow> failure_payload ''fundamentals'' ticker e | Inr r \<Rightarrow> r)
   \<and> getYahooNews env ticker =
     Inr (case yahoo_news_body env ticker of
            Inl e \<Rightarrow> failure_payload ''news'' ticker e | Inr r \<Rightarrow> r)
   \<and> getAlphaVantagePriceSnapshot env ticker =
     Inr (case av_price_body env ticker of
            Inl e \<Rightarrow> failure_payload ''price'' ticker e | Inr r \<Rightarrow> r)
   \<and> getAlphaVantageOverview env ticker =
     Inr (case av_overview_body env ticker of
            Inl e \<Rightarrow> failure_payload ''overview'' ticker e | Inr r \<Rightarrow> r)
   \<and> getAlphaVantagePriceSnapshot
       (env\<lparr>tools_process_env := (tools_process_env env)(''ALPHA_VANTAGE_API_KEY'' := None)\<rparr>)
       ticker =
     Inr (formatToolResult
            (JObj [(''error'', JStr (''Failed to fetch price for '' @ ticker
                      @ '': Error: ALPHA_VANTAGE_API_KEY is not set in .env''))]) [])
   \<and> getAlphaVantagePriceSnapshot
       (env\<lparr>tools_process_env := (tools_process_env env)(''ALPHA_VANTAGE_API_KEY'' \<mapsto> c # cs),
            fetch_json := (\<lambda>url. Inl e)\<rparr>)
       ticker = Inr (failure_payload ''price'' ticker e)
   \<and> getAlphaVantageOverview (env\<lparr>fetch_json := (\<lambda>url. Inl e)\<rparr>) ticker =
     Inr (failure_payload ''overview'' ticker e)
   \<and> getYahooPriceSnapshot (env\<lparr>yahoo_quote := (\<lambda>t. Inl e)\<rparr>) ticker =
     Inr (failure_payload ''price'' ticker e)
   \<and> getYahooFundamentals (env\<lparr>yahoo_quoteSummary := (\<lambda>t. Inl e)\<rparr>) ticker =
     Inr (failure_payload ''fundamentals'' ticker e)
   \<and> getYahooNews (env\<lparr>yahoo_search := (\<lambda>t. Inl e)\<rparr>) ticker =
     Inr (failure_payload ''news'' ticker e)"
proof (intro conjI)
  show "getYahooPriceSnapshot env ticker =
     Inr (case yahoo_price_body env ticker of
            Inl e \<Rightarrow> failure_payload ''price'' ticker e | Inr r \<Rightarrow> r)"
    by (simp only: getYahooPriceSnapshot_def try_catch_payload)
  show "getYahooFundamentals env ticker =
     Inr (case yahoo_fundamentals_body env ticker of
            Inl e \<Rightarrow> failure_payload ''fundamentals'' ticker e | Inr r \<Rightarrow> r)"
    by (simp only: getYahooFundamentals_def try_catch_payload)
  show "getYahooNews env ticker =
     Inr (case yahoo_news_body env ticker of
            Inl e \<Rightarrow> failure_payload ''news'' ticker e | Inr r \<Rightarrow> r)"
    by (simp only: getYahooNews_def try_catch_payload)
  show "getAlphaVantagePriceSnapshot env ticker =
     Inr (case av_price_body env ticker of
            Inl e \<Rightarrow> failure_payload ''price'' ticker e | Inr r \<Rightarrow> r)"
    by (simp only: getAlphaVantagePriceSnapshot_def try_catch_payload)
  show "getAlphaVantageOverview env ticker =
     Inr (case av_overview_body env ticker of
            Inl e \<Rightarrow> failure_payload ''overview'' ticker e | Inr r \<Rightarrow> r)"
    by (simp only: getAlphaVantageOverview_def try_catch_payload)
  show "getAlphaVantagePriceSnapshot
       (env\<lparr>tools_process_env := (tools_process_env env)(''ALPHA_VANTAGE_API_KEY'' := None)\<rparr>)
       ticker =
     Inr (formatToolResult
            (JObj [(''error'', JStr (''Failed to fetch price for '' @ ticker
                      @ '': Error: ALPHA_VANTAGE_API_KEY is not set in .env''))]) [])"
    unfolding getAlphaVantagePriceSnapshot_def try_catch_payload
    by (simp add: av_price_no_key failure_payload_def error_string_def)
  show "getAlphaVantagePriceSnapshot
       (env\<lparr>tools_process_env := (tools_process_env env)(''ALPHA_VANTAGE_API_KEY'' \<mapsto> c # cs),
            fetch_json := (\<lambda>url. Inl e)\<rparr>)
       ticker = Inr (failure_payload ''price'' ticker e)"
    by (simp add: getAlphaVantagePriceSnapshot_def try_catch_payload av_price_fetch_fails)
  show "getAlphaVantageOverview (env\<lparr>fetch_json := (\<lambda>url. Inl e)\<rparr>) ticker =
     Inr (failure_payload ''overview'' ticker e)"
    by (simp add: getAlphaVantageOverview_def try_catch_payload av_overview_body_def then_do_def)
  show "getYahooPriceSnapshot (env\<lparr>yahoo_quote := (\<lambda>t. Inl e)\<rparr>) ticker =
     Inr (failure_payload ''price'' ticker e)"
    by (simp add: getYahooPriceSnapshot_def try_catch_payload yahoo_price_body_def then_do_def)
  show "getYahooFundamentals (env\<lparr>yahoo_quoteSummary := (\<lambda>t. Inl e)\<rparr>) ticker =
     Inr (failure_payload ''fundamentals'' ticker e)"
    by (simp add: getYahooFundamentals_def try_catch_payload yahoo_fundamentals_body_def then_do_def)
  show "getYahooNews (env\<lparr>yahoo_search := (\<lambda>t. Inl e)\<rparr>) ticker =
     Inr (failure_payload ''news'' ticker e)"
    by (simp add: getYahooNews_def try_catch_payload yahoo_news_body_def then_do_def)
qed

theorem C9_tools_never_throw_witness:
  "getAlphaVantagePriceSnapshot example_tools_env ''RELIANCE.BSE'' =
     Inr (formatToolResult
            (JObj [(''error'', JStr (''Failed to fetch price for RELIANCE.BSE''
                      @ '': Error: ALPHA_VANTAGE_API_KEY is not set in .env''))]) [])
   \<and> getAlphaVantageOverview example_tools_env ''RELIANCE.BSE'' =
     Inr (formatToolResult
            (JObj [(''error'', JStr (''Failed to fetch overview for RELIANCE.BSE''
                      @ '': TypeError: fetch failed''))]) [])
   \<and> getYahooFundamentals example_tools_env ''NOPE'' =
     Inr (formatToolResult
            (JObj [(''error'', JStr (''Failed to fetch fundamentals for NOPE''
                      @ '': Error: Quote not found for ticker symbol: NOPE''))]) [])
   \<and> getYahooNews example_tools_env ''AAPL'' =
     Inr (formatToolResult
            (JObj [(''news'', JArr [JObj [(''title'', JStr ''Results''),
                                         (''link'', JStr ''https://news.example/1''),
                                         (''publisher'', JUndefined),
                                         (''providerPublishTime'', JUndefined),
                                         (''type'', JUndefined)]])])
            [JStr ''https://news.example/1''])"
proof -
  note inst = C9_tools_never_throw [of example_tools_env]
  have a: "av_price_body example_tools_env ''RELIANCE.BSE''
      = Inl (Error ''ALPHA_VANTAGE_API_KEY is not set in .env'')"
    by (simp add: av_price_no_key example_tools_env_def)
  have b: "av_overview_body example_tools_env ''RELIANCE.BSE'' = Inl (TypeError ''fetch failed'')"
    by (simp add: av_overview_body_def then_do_def example_tools_env_def)
  have c: "yahoo_fundamentals_body example_tools_env ''NOPE''
      = Inl (Error ''Quote not found for ticker symbol: NOPE'')"
    by (simp add: yahoo_fundamentals_body_def then_do_def example_tools_env_def)
  have d: "yahoo_news_body example_tools_env ''AAPL'' =
     Inr (formatToolResult
            (JObj [(''news'', JArr [JObj [(''title'', JStr ''Results''),
                                         (''link'', JStr ''https://news.example/1''),
                                         (''publisher'', JUndefined),
                                         (''providerPublishTime'', JUndefined),
                                         (''type'', JUndefined)]])])
            [JStr ''https://news.example/1''])"
    by (simp add: yahoo_news_body_def then_do_def example_tools_env_def get_prop_def
          news_item_def prop_of_def)
  from inst [of "''RELIANCE.BSE''"] inst [of "''NOPE''"] inst [of "''AAPL''"]
  show ?thesis
    by (simp add: a b c d failure_payload_def error_string_def)
qed

end
